theory Spec2Isabelle
  imports Complex_Main "HOL-Library.Sublist"
begin

section \<open>JavaScript values used by helpers.js\<close>

text \<open>
  A JavaScript number is modelled by \<open>jsnum\<close>: \<open>Fin q\<close> is the number \<open>q\<close>, and the two
  infinities and NaN are values of their own, since the source branches on them
  (\<^verbatim>\<open>number === -Infinity\<close>, \<^verbatim>\<open>isNaN\<close>). JavaScript numbers are binary64 values: the value
  of a decimal literal, a sum, a product and a quotient are each rounded to the nearest
  binary64 value, and \<open>round64\<close> below is that rounding. Signed zero is not
  distinguished: the source never divides by a zero and compares zeros with \<^verbatim>\<open>===\<close> and
  \<^verbatim>\<open><\<close> only, which take the two zeros as equal. Strings are lists of 8-bit characters: a
  code unit above 0xFF is outside the model.
\<close>

datatype jsnum = NaN | NegInf | PosInf | Fin rat

subsection \<open>Rounding to binary64\<close>

text \<open>The number of binary digits of a natural number.\<close>

fun bit_length :: "nat \<Rightarrow> nat" where
  "bit_length n = (if n = 0 then 0 else Suc (bit_length (n div 2)))"

declare bit_length.simps [simp del]

text \<open>
  The binary exponent of a positive rational \<open>a\<close>: the \<open>e\<close> with
  \<open>2^e \<le> a < 2^(e+1)\<close>.
\<close>

definition binade :: "rat \<Rightarrow> int" where
  "binade a =
     (if 1 \<le> a then int (bit_length (nat \<lfloor>a\<rfloor>)) - 1
      else - int (bit_length (nat \<lceil>1 / a\<rceil> - 1)))"

text \<open>The nearest integer, the even one of the two when \<open>x\<close> lies half way.\<close>

definition round_half_even :: "rat \<Rightarrow> int" where
  "round_half_even x =
     (if x - of_int \<lfloor>x\<rfloor> < 1 / 2 then \<lfloor>x\<rfloor>
      else if 1 / 2 < x - of_int \<lfloor>x\<rfloor> then \<lfloor>x\<rfloor> + 1
      else if even \<lfloor>x\<rfloor> then \<lfloor>x\<rfloor> else \<lfloor>x\<rfloor> + 1)"

text \<open>
  A binary64 value with exponent \<open>e\<close> is a multiple of \<open>2^(e - 52)\<close> (53 significant
  bits); below \<open>2^-1022\<close> the spacing stays that of the smallest normal exponent.
  \<open>nearest a\<close> is the multiple of that spacing nearest to a positive \<open>a\<close>, ties going to
  the even multiple; a result of \<open>2^1024\<close> or more is an infinity.
\<close>

definition ulp :: "rat \<Rightarrow> rat" where
  "ulp a = 2 powi (max (binade a) (- 1022) - 52)"

definition nearest :: "rat \<Rightarrow> rat" where
  "nearest a = of_int (round_half_even (a / ulp a)) * ulp a"

definition overflow_threshold :: rat where
  "overflow_threshold = 2 ^ 1024"

definition round64 :: "rat \<Rightarrow> jsnum" where
  "round64 q =
     (if q = 0 then Fin 0
      else if overflow_threshold \<le> nearest \<bar>q\<bar> then (if q < 0 then NegInf else PosInf)
      else Fin (if q < 0 then - nearest \<bar>q\<bar> else nearest \<bar>q\<bar>))"

fun negate :: "jsnum \<Rightarrow> jsnum" where
  "negate NaN = NaN"
| "negate NegInf = PosInf"
| "negate PosInf = NegInf"
| "negate (Fin q) = Fin (- q)"

text \<open>\<^verbatim>\<open>Math.max(a, b)\<close>: NaN when either argument is NaN.\<close>

fun Math_max :: "jsnum \<Rightarrow> jsnum \<Rightarrow> jsnum" where
  "Math_max NaN _ = NaN"
| "Math_max _ NaN = NaN"
| "Math_max PosInf _ = PosInf"
| "Math_max _ PosInf = PosInf"
| "Math_max NegInf b = b"
| "Math_max a NegInf = a"
| "Math_max (Fin a) (Fin b) = Fin (max a b)"

text \<open>The relational operators on numbers: a comparison with NaN is false.\<close>

fun js_less :: "jsnum \<Rightarrow> jsnum \<Rightarrow> bool" where
  "js_less NaN _ = False"
| "js_less _ NaN = False"
| "js_less PosInf _ = False"
| "js_less _ NegInf = False"
| "js_less NegInf _ = True"
| "js_less _ PosInf = True"
| "js_less (Fin a) (Fin b) = (a < b)"

fun js_greater_eq :: "jsnum \<Rightarrow> jsnum \<Rightarrow> bool" where
  "js_greater_eq NaN _ = False"
| "js_greater_eq _ NaN = False"
| "js_greater_eq a b = (\<not> js_less a b)"

subsection \<open>Numeric strings: \<^verbatim>\<open>parseFloat\<close> and \<^verbatim>\<open>isNaN\<close>\<close>

definition is_line_terminator :: "char \<Rightarrow> bool" where
  "is_line_terminator c = (c = CHR 0x0A \<or> c = CHR 0x0D)"

definition is_ws :: "char \<Rightarrow> bool" where
  "is_ws c = (c \<in> set [CHR 0x09, CHR 0x0A, CHR 0x0B, CHR 0x0C, CHR 0x0D, CHR 0x20, CHR 0xA0])"

definition is_digit :: "char \<Rightarrow> bool" where
  "is_digit c = (c \<in> set ''0123456789'')"

text \<open>The place of a character in a string, counted from \<open>i\<close>.\<close>

fun position_from :: "nat \<Rightarrow> char \<Rightarrow> string \<Rightarrow> nat option" where
  "position_from i c [] = None"
| "position_from i c (d # ds) = (if c = d then Some i else position_from (i + 1) c ds)"

text \<open>The value of a digit of base 16 or less; the letters count in either case.\<close>

definition hex_val :: "char \<Rightarrow> nat option" where
  "hex_val c =
     (case position_from 0 c ''0123456789abcdef'' of
        Some d \<Rightarrow> Some d
      | None \<Rightarrow> position_from 10 c ''ABCDEF'')"

text \<open>The value of a digit string in a base, most significant digit first.\<close>

definition digits_val :: "nat \<Rightarrow> string \<Rightarrow> nat" where
  "digits_val base ds = foldl (\<lambda>a c. base * a + (case hex_val c of Some d \<Rightarrow> d | None \<Rightarrow> 0)) 0 ds"

text \<open>
  The value of the digits \<open>ds\<close> times \<open>10^e\<close>, rounded to binary64 as the engines do it:
  from the exact decimal value.
\<close>

definition decimal_value :: "string \<Rightarrow> int \<Rightarrow> jsnum" where
  "decimal_value ds e =
     round64 (if 0 \<le> e then of_nat (digits_val 10 ds) * 10 ^ nat e
              else of_nat (digits_val 10 ds) / 10 ^ nat (- e))"

text \<open>
  \<open>ExponentPart\<close>: \<open>e\<close> or \<open>E\<close>, an optional sign, and at least one digit. Without the
  digits the exponent is not part of the literal.
\<close>

definition scan_exponent :: "string \<Rightarrow> int \<times> string" where
  "scan_exponent s =
     (case s of
        [] \<Rightarrow> (0, s)
      | c # r \<Rightarrow>
          if c = CHR ''e'' \<or> c = CHR ''E'' then
            (let sgn = (case r of d # _ \<Rightarrow> if d = CHR ''-'' then - 1 else 1 | [] \<Rightarrow> (1::int));
                 r1 = (case r of d # r' \<Rightarrow> if d = CHR ''-'' \<or> d = CHR ''+'' then r' else r | [] \<Rightarrow> r);
                 ds = takeWhile is_digit r1
             in if ds = [] then (0, s)
                else (sgn * int (digits_val 10 ds), dropWhile is_digit r1))
          else (0, s))"

text \<open>
  The longest prefix that is a \<open>StrUnsignedDecimalLiteral\<close>: \<open>Infinity\<close>,
  \<open>digits . digits? exponent?\<close>, \<open>. digits exponent?\<close> or \<open>digits exponent?\<close>,
  with its value and the rest of the string.
\<close>

definition scan_unsigned :: "string \<Rightarrow> (jsnum \<times> string) option" where
  "scan_unsigned s =
     (if prefix ''Infinity'' s then Some (PosInf, drop 8 s)
      else
        (let ip = takeWhile is_digit s; r1 = dropWhile is_digit s in
         case r1 of
           [] \<Rightarrow> if ip = [] then None else Some (decimal_value ip 0, [])
         | c # r2 \<Rightarrow>
             if c = CHR ''.'' then
               (let fp = takeWhile is_digit r2; r3 = dropWhile is_digit r2 in
                if ip = [] \<and> fp = [] then None
                else (case scan_exponent r3 of
                        (e, r4) \<Rightarrow> Some (decimal_value (ip @ fp) (e - int (length fp)), r4)))
             else if ip = [] then None
             else (case scan_exponent r1 of (e, r4) \<Rightarrow> Some (decimal_value ip e, r4))))"

text \<open>\<open>StrDecimalLiteral\<close>: an optional sign before the unsigned literal.\<close>

definition scan_decimal :: "string \<Rightarrow> (jsnum \<times> string) option" where
  "scan_decimal s =
     (case s of
        [] \<Rightarrow> None
      | c # r \<Rightarrow>
          if c = CHR ''-'' then map_option (\<lambda>(v, t). (negate v, t)) (scan_unsigned r)
          else if c = CHR ''+'' then scan_unsigned r
          else scan_unsigned s)"

text \<open>
  \<^verbatim>\<open>parseFloat(string)\<close>: leading white space is skipped, the longest prefix that is a
  decimal literal is read, and whatever follows it is ignored; NaN when there is no such
  prefix.
\<close>

definition parseFloat :: "string \<Rightarrow> jsnum" where
  "parseFloat s = (case scan_decimal (dropWhile is_ws s) of Some (v, _) \<Rightarrow> v | None \<Rightarrow> NaN)"

text \<open>
  \<open>NonDecimalIntegerLiteral\<close>: \<open>0x\<close>, \<open>0o\<close> or \<open>0b\<close> (either case) and at least one digit
  of the base, with no sign.
\<close>

definition scan_nondecimal :: "string \<Rightarrow> jsnum option" where
  "scan_nondecimal s =
     (case s of
        z # b # ds \<Rightarrow>
          (let base = (if b = CHR ''x'' \<or> b = CHR ''X'' then 16
                       else if b = CHR ''o'' \<or> b = CHR ''O'' then 8
                       else if b = CHR ''b'' \<or> b = CHR ''B'' then 2 else (0::nat))
           in if z = CHR ''0'' \<and> base \<noteq> 0 \<and> ds \<noteq> [] \<and>
                 list_all (\<lambda>c. case hex_val c of Some d \<Rightarrow> d < base | None \<Rightarrow> False) ds
              then Some (round64 (of_nat (digits_val base ds)))
              else None)
      | _ \<Rightarrow> None)"

definition trim :: "string \<Rightarrow> string" where
  "trim s = rev (dropWhile is_ws (rev (dropWhile is_ws s)))"

text \<open>
  \<open>ToNumber\<close> of a string (\<open>StringNumericLiteral\<close>): white space around the literal
  is dropped, the empty string is 0, and the whole of what is left must be one literal.
\<close>

definition string_to_number :: "string \<Rightarrow> jsnum" where
  "string_to_number s =
     (let t = trim s in
      if t = [] then Fin 0
      else (case scan_nondecimal t of
              Some v \<Rightarrow> v
            | None \<Rightarrow> (case scan_decimal t of
                         Some (v, rest) \<Rightarrow> if rest = [] then v else NaN
                       | None \<Rightarrow> NaN)))"

text \<open>
  \<^verbatim>\<open>isNaN(x)\<close> for \<open>x\<close> a string or \<^verbatim>\<open>undefined\<close> (\<open>None\<close>): \<open>ToNumber(undefined)\<close>
  is NaN.
\<close>

definition isNaN :: "string option \<Rightarrow> bool" where
  "isNaN x = (case x of None \<Rightarrow> True | Some s \<Rightarrow> string_to_number s = NaN)"

subsection \<open>\<^verbatim>\<open>Number.prototype.toFixed(2)\<close>\<close>

definition digit_char :: "nat \<Rightarrow> char" where
  "digit_char d = ''0123456789'' ! d"

fun dec_digits :: "nat \<Rightarrow> string" where
  "dec_digits n = (if n < 10 then [digit_char n] else dec_digits (n div 10) @ [digit_char (n mod 10)])"

declare dec_digits.simps [simp del]

text \<open>
  \<^verbatim>\<open>x.toFixed(2)\<close>: a value that is not finite prints as its name. Otherwise the sign
  is set aside, \<open>n\<close> is the integer nearest to \<open>100 * |x|\<close> (the larger one on a tie), its
  decimal digits are padded with zeros to three, and a point goes before the last two.
  JavaScript prints magnitudes of \<open>10^21\<close> and more in exponent notation instead; at
  that size a binary64 value is an integer, so parsing the text gives the same number
  either way.
\<close>

definition round_hundredths :: "rat \<Rightarrow> nat" where
  "round_hundredths q = nat \<lfloor>\<bar>q\<bar> * 100 + 1 / 2\<rfloor>"

definition fixed_digits :: "nat \<Rightarrow> string" where
  "fixed_digits n = replicate (3 - length (dec_digits n)) CHR ''0'' @ dec_digits n"

definition toFixed2 :: "jsnum \<Rightarrow> string" where
  "toFixed2 x =
     (case x of
        NaN \<Rightarrow> ''NaN''
      | PosInf \<Rightarrow> ''Infinity''
      | NegInf \<Rightarrow> ''-Infinity''
      | Fin q \<Rightarrow>
          (let m = fixed_digits (round_hundredths q);
               k = length m
           in (if q < 0 then ''-'' else []) @ take (k - 2) m @ ''.'' @ drop (k - 2) m))"

section \<open>Grade tables and conversions\<close>

text \<open>
  What a property read of an object literal gives: a number of the table, a member that
  every object inherits from \<^verbatim>\<open>Object.prototype\<close> (a function, or the prototype itself for
  \<^verbatim>\<open>__proto__\<close>), or \<^verbatim>\<open>undefined\<close>.
\<close>

datatype jsvalue = Number rat | Inherited string | Undefined

definition object_prototype_keys :: "string list" where
  "object_prototype_keys =
     [''constructor'', ''hasOwnProperty'', ''isPrototypeOf'', ''propertyIsEnumerable'',
      ''toLocaleString'', ''toString'', ''valueOf'', ''__proto__'',
      ''__defineGetter__'', ''__defineSetter__'', ''__lookupGetter__'', ''__lookupSetter__'']"

text \<open>
  \<^verbatim>\<open>key in obj\<close> for an object literal: true for an own property and for an inherited
  one.
\<close>

definition has_property :: "(string \<times> 'a) list \<Rightarrow> string \<Rightarrow> bool" where
  "has_property obj key = (map_of obj key \<noteq> None \<or> key \<in> set object_prototype_keys)"

text \<open>\<^verbatim>\<open>obj[key]\<close>: the own property first, then the prototype's.\<close>

definition get_property :: "(string \<times> rat) list \<Rightarrow> string \<Rightarrow> jsvalue" where
  "get_property obj key =
     (case map_of obj key of
        Some v \<Rightarrow> Number v
      | None \<Rightarrow> if key \<in> set object_prototype_keys then Inherited key else Undefined)"

definition grade_gpa :: "(string \<times> rat) list" where
  "grade_gpa =
     [(''A+'', 9 / 2), (''A'', 4), (''B+'', 7 / 2), (''B'', 3), (''C+'', 5 / 2), (''C'', 2),
      (''D+'', 3 / 2), (''D'', 1), (''F'', 0)]"

definition gradeToGPA :: "string \<Rightarrow> jsvalue" where
  "gradeToGPA grade =
     (if has_property grade_gpa grade then get_property grade_gpa grade else Number (- 1))"

definition grade_fp :: "(string \<times> rat) list" where
  "grade_fp =
     [(''A+'', 90), (''A'', 80), (''B+'', 70), (''B'', 60), (''C+'', 50), (''C'', 40),
      (''D+'', 30), (''D'', 20), (''F'', 10)]"

definition gradeToFP :: "string \<Rightarrow> jsvalue" where
  "gradeToFP grade =
     (if has_property grade_fp grade then get_property grade_fp grade else Number (- 1))"

definition avaliableGrades :: "string list" where
  "avaliableGrades = [''A+'', ''A'', ''B+'', ''B'', ''C+'', ''C'', ''D+'', ''D'', ''F'']"

definition fprange :: "(string \<times> string) list" where
  "fprange =
     [(''85-90'', ''A+''), (''75-85'', ''A''), (''65-75'', ''B+''), (''55-65'', ''B''),
      (''45-55'', ''C+''), (''35-45'', ''C''), (''25-35'', ''D+''), (''15-25'', ''D''),
      (''0-15'', ''F'')]"

text \<open>
  Modelled from the spec: \<^verbatim>\<open>getKeyRange\<close>, the range lookup of the package
  \<^verbatim>\<open>get-key-range\<close> that helpers.js requires; its code is not among the source files. The
  spec's words: it "finds the band \<open>[lower, upper)\<close> containing it in the band table and
  returns the associated letter", with "90 and above" mapping to \<^verbatim>\<open>A+\<close>, and the rule it
  recommends: "half-open intervals \<open>[lower, upper)\<close>, ascending, with values \<open>\<ge>\<close> the top
  bound mapping to the top grade and values \<open>< 0\<close> mapping to absent". A key
  \<open>lower-upper\<close> is read as two numbers around the dash and the entries are tried in the
  order of the object literal. A value in no band gets the letter of the band with the
  greatest upper bound when it is at or above that bound, and \<^verbatim>\<open>undefined\<close> (\<open>None\<close>)
  otherwise: so a value below every band, and NaN.
\<close>

definition key_bounds :: "string \<Rightarrow> jsnum \<times> jsnum" where
  "key_bounds key =
     (string_to_number (takeWhile (\<lambda>c. c \<noteq> CHR ''-'') key),
      string_to_number (drop 1 (dropWhile (\<lambda>c. c \<noteq> CHR ''-'') key)))"

definition in_band :: "jsnum \<Rightarrow> string \<Rightarrow> bool" where
  "in_band x key = (js_greater_eq x (fst (key_bounds key)) \<and> js_less x (snd (key_bounds key)))"

fun top_band :: "(string \<times> string) list \<Rightarrow> (string \<times> string) option" where
  "top_band [] = None"
| "top_band (e # es) =
     (case top_band es of
        None \<Rightarrow> Some e
      | Some t \<Rightarrow>
          if js_less (snd (key_bounds (fst e))) (snd (key_bounds (fst t))) then Some t
          else Some e)"

definition getKeyRange :: "(string \<times> string) list \<Rightarrow> jsnum \<Rightarrow> string option" where
  "getKeyRange obj x =
     (case find (\<lambda>(key, v). in_band x key) obj of
        Some (key, v) \<Rightarrow> Some v
      | None \<Rightarrow>
          (case top_band obj of
             Some (key, v) \<Rightarrow> if js_greater_eq x (snd (key_bounds key)) then Some v else None
           | None \<Rightarrow> None))"

text \<open>
  The argument of \<^verbatim>\<open>fpToGrade\<close> is a string or a number (or missing). \<^verbatim>\<open>parseFloat\<close>
  turns its argument into a string first; the text of a number reads back as that
  number, and \<^verbatim>\<open>"undefined"\<close> is not numeric.
\<close>

datatype jsarg = Str string | Num jsnum | Undef

fun parseFloat_arg :: "jsarg \<Rightarrow> jsnum" where
  "parseFloat_arg (Str s) = parseFloat s"
| "parseFloat_arg (Num n) = n"
| "parseFloat_arg Undef = NaN"

definition fpToGrade :: "jsarg \<Rightarrow> string option" where
  "fpToGrade finalPercent = getKeyRange fprange (parseFloat (toFixed2 (parseFloat_arg finalPercent)))"

section \<open>Courses and the grade point average\<close>

text \<open>\<^verbatim>\<open>/^(p1|p2)/.test(s)\<close>: the string starts with one of the alternatives.\<close>

definition starts_with_any :: "string list \<Rightarrow> string \<Rightarrow> bool" where
  "starts_with_any alts s = list_ex (\<lambda>p. prefix p s) alts"

definition double_effect_courses :: "string list" where
  "double_effect_courses = [''English 10/American History'', ''English 9/World History'']"

definition calculate_credit_hours :: "string \<Rightarrow> rat" where
  "calculate_credit_hours course_name =
     (if course_name \<in> set double_effect_courses then 2
      else if starts_with_any [''I Service: '', ''IS: ''] course_name then 1 / 2
      else 1)"

text \<open>
  \<^verbatim>\<open>v < 1.8\<close> for what \<^verbatim>\<open>gradeToGPA\<close> returned: an inherited member is converted to a
  number through its text, which is NaN, and a comparison with NaN is false. The literal
  \<^verbatim>\<open>1.8\<close> is the binary64 value nearest to 18/10.
\<close>

fun less_than :: "jsvalue \<Rightarrow> jsnum \<Rightarrow> bool" where
  "less_than (Number x) y = js_less (Fin x) y"
| "less_than (Inherited k) y = False"
| "less_than Undefined y = False"

definition course_boost :: "string \<Rightarrow> string \<Rightarrow> rat" where
  "course_boost course_name grade =
     (if less_than (gradeToGPA grade) (round64 (18 / 10)) then 0
      else if starts_with_any [''AP '', ''AT ''] course_name then 1 / 2
      else 0)"

text \<open>
  Modelled from the spec: the classes \<^verbatim>\<open>Assignment\<close> and \<^verbatim>\<open>Course\<close> of
  \<^verbatim>\<open>models/\<close>, which helpers.js imports and which are not among the source files. An
  assignment has a name, a raw score, its index in the course and a list of status flags
  (only \<open>MISSING\<close>); a course has a name, a link, a letter grade (or the empty string), a
  final percent (or none) and its assignments. \<^verbatim>\<open>toObject\<close> and the constructor carry the
  five fields over.
\<close>

datatype status = MISSING

record assignment =
  assignment_name :: string
  score :: string
  order :: nat
  statuses :: "status list"

record course =
  name :: string
  link :: string
  grade :: string
  finalPercent :: "jsnum option"
  course_assignments :: "assignment list"

text \<open>
  The operators \<^verbatim>\<open>+\<close>, \<^verbatim>\<open>*\<close> and \<^verbatim>\<open>/\<close> on numbers: the exact result rounded to
  binary64, and the rules for NaN and the infinities. A zero divisor is taken as \<open>+0\<close>.
\<close>

fun js_add :: "jsnum \<Rightarrow> jsnum \<Rightarrow> jsnum" where
  "js_add NaN _ = NaN"
| "js_add _ NaN = NaN"
| "js_add PosInf NegInf = NaN"
| "js_add NegInf PosInf = NaN"
| "js_add PosInf _ = PosInf"
| "js_add _ PosInf = PosInf"
| "js_add NegInf _ = NegInf"
| "js_add _ NegInf = NegInf"
| "js_add (Fin a) (Fin b) = round64 (a + b)"

fun js_multiply :: "jsnum \<Rightarrow> jsnum \<Rightarrow> jsnum" where
  "js_multiply NaN _ = NaN"
| "js_multiply _ NaN = NaN"
| "js_multiply (Fin a) (Fin b) = round64 (a * b)"
| "js_multiply (Fin a) PosInf = (if a = 0 then NaN else if 0 < a then PosInf else NegInf)"
| "js_multiply (Fin a) NegInf = (if a = 0 then NaN else if 0 < a then NegInf else PosInf)"
| "js_multiply PosInf (Fin b) = (if b = 0 then NaN else if 0 < b then PosInf else NegInf)"
| "js_multiply NegInf (Fin b) = (if b = 0 then NaN else if 0 < b then NegInf else PosInf)"
| "js_multiply PosInf PosInf = PosInf"
| "js_multiply NegInf NegInf = PosInf"
| "js_multiply PosInf NegInf = NegInf"
| "js_multiply NegInf PosInf = NegInf"

fun js_divide :: "jsnum \<Rightarrow> jsnum \<Rightarrow> jsnum" where
  "js_divide NaN _ = NaN"
| "js_divide _ NaN = NaN"
| "js_divide (Fin a) (Fin d) =
     (if d \<noteq> 0 then round64 (a / d)
      else if a = 0 then NaN else if 0 < a then PosInf else NegInf)"
| "js_divide (Fin a) PosInf = Fin 0"
| "js_divide (Fin a) NegInf = Fin 0"
| "js_divide PosInf (Fin d) = (if d < 0 then NegInf else PosInf)"
| "js_divide NegInf (Fin d) = (if d < 0 then PosInf else NegInf)"
| "js_divide PosInf PosInf = NaN"
| "js_divide PosInf NegInf = NaN"
| "js_divide NegInf PosInf = NaN"
| "js_divide NegInf NegInf = NaN"

text \<open>
  \<^verbatim>\<open>multiplier * (v + boost)\<close>: with a number \<open>v\<close> the sum is a number. With an inherited
  member the \<^verbatim>\<open>+\<close> concatenates its text with the boost's, and the product with that
  string is NaN; \<^verbatim>\<open>undefined\<close> plus a number is NaN as well.
\<close>

fun weighted :: "rat \<Rightarrow> jsvalue \<Rightarrow> rat \<Rightarrow> jsnum" where
  "weighted multiplier (Number g) boost = js_multiply (Fin multiplier) (js_add (Fin g) (Fin boost))"
| "weighted multiplier (Inherited k) boost = NaN"
| "weighted multiplier Undefined boost = NaN"

text \<open>
  The loop of \<^verbatim>\<open>calculate_gpa\<close>, with its two accumulators \<^verbatim>\<open>courses_with_grades\<close> and
  \<^verbatim>\<open>sum\<close> (written \<open>sum_acc\<close> here).
\<close>

fun gpa_loop :: "course list \<Rightarrow> jsnum \<times> jsnum \<Rightarrow> jsnum \<times> jsnum" where
  "gpa_loop [] acc = acc"
| "gpa_loop (c # cs) (courses_with_grades, sum_acc) =
     (if gradeToGPA (grade c) \<noteq> Number (- 1) then
        (let multiplier = calculate_credit_hours (name c) in
         gpa_loop cs
           (js_add courses_with_grades (Fin multiplier),
            js_add sum_acc (weighted multiplier (gradeToGPA (grade c)) (course_boost (name c) (grade c)))))
      else gpa_loop cs (courses_with_grades, sum_acc))"

definition calculate_gpa :: "course list \<Rightarrow> string" where
  "calculate_gpa courses =
     (case gpa_loop courses (Fin 0, Fin 0) of
        (courses_with_grades, sum_acc) \<Rightarrow>
          if courses_with_grades = Fin 0 then ''0.00''
          else toFixed2 (js_divide sum_acc courses_with_grades))"

section \<open>Reading the course page\<close>

datatype js_error = TypeError | ReferenceError string

text \<open>
  \<^verbatim>\<open>html.match(/(?=document\.write).*/g)\<close>: the matches from left to right. A match
  starts where \<^verbatim>\<open>document.write\<close> stands and runs to the end of that line (\<open>.\<close> takes no
  line terminator); the search goes on behind it. The list may be empty: \<^verbatim>\<open>match\<close> then
  returns \<^verbatim>\<open>null\<close>.
\<close>

definition marker :: string where
  "marker = ''document.write''"

function match_marker :: "string \<Rightarrow> string list" where
  "match_marker [] = []"
| "match_marker (c # cs) =
     (if prefix marker (c # cs) then
        (c # takeWhile (\<lambda>x. \<not> is_line_terminator x) cs)
          # match_marker (dropWhile (\<lambda>x. \<not> is_line_terminator x) cs)
      else match_marker cs)"
  by pat_completeness auto
termination
  by (relation "measure length") (auto simp: less_Suc_eq_le length_dropWhile_le)

text \<open>
  \<^verbatim>\<open>/\[.*\]/g.exec(s)\<close> on a fresh expression: the first \<open>[\<close> that has a \<open>]\<close> behind it
  on its line, up to the last such \<open>]\<close>; \<open>None\<close> for \<^verbatim>\<open>null\<close>.
\<close>

definition upto_last_close :: "string \<Rightarrow> string" where
  "upto_last_close seg = rev (dropWhile (\<lambda>x. x \<noteq> CHR '']'') (rev seg))"

fun exec_brackets :: "string \<Rightarrow> string option" where
  "exec_brackets [] = None"
| "exec_brackets (c # cs) =
     (if c = CHR ''['' \<and> CHR '']'' \<in> set (takeWhile (\<lambda>x. \<not> is_line_terminator x) cs)
      then Some (c # upto_last_close (takeWhile (\<lambda>x. \<not> is_line_terminator x) cs))
      else exec_brackets cs)"

text \<open>\<^verbatim>\<open>s.slice(1, -1)\<close>: without the first and the last element.\<close>

definition slice_1_m1 :: "'a list \<Rightarrow> 'a list" where
  "slice_1_m1 s = butlast (tl s)"

text \<open>\<^verbatim>\<open>s.split(";")\<close>: at least one token, the empty string for the empty string.\<close>

fun split :: "char \<Rightarrow> string \<Rightarrow> string list" where
  "split sep [] = [[]]"
| "split sep (c # cs) =
     (if c = sep then [] # split sep cs
      else (case split sep cs of t # ts \<Rightarrow> (c # t) # ts | [] \<Rightarrow> [[c]]))"

text \<open>\<^verbatim>\<open>temp[temp.length - k]\<close>: \<^verbatim>\<open>undefined\<close> when the index is negative.\<close>

definition from_end :: "string list \<Rightarrow> nat \<Rightarrow> string option" where
  "from_end temp k = (if k \<le> length temp \<and> 0 < k then Some (temp ! (length temp - k)) else None)"

text \<open>
  \<^verbatim>\<open>isNaN(t) ? -Infinity : parseFloat(t)\<close>; \<^verbatim>\<open>parseFloat\<close> is reached with a string only.
\<close>

definition token_value :: "string option \<Rightarrow> jsnum" where
  "token_value t = (if isNaN t then NegInf else (case t of Some s \<Rightarrow> parseFloat s | None \<Rightarrow> NaN))"

text \<open>
  The number read from \<^verbatim>\<open>current_string\<close>: the bracketed list, its tokens, and the
  larger of the last two. \<^verbatim>\<open>exec\<close> returning \<^verbatim>\<open>null\<close> makes the index throw a TypeError.
\<close>

definition bracket_number :: "string \<Rightarrow> js_error + jsnum" where
  "bracket_number current_string =
     (case exec_brackets current_string of
        None \<Rightarrow> Inl TypeError
      | Some m \<Rightarrow>
          (let temp = split CHR '';'' (slice_1_m1 m) in
           Inr (Math_max (token_value (from_end temp 2)) (token_value (from_end temp 1)))))"

text \<open>
  The \<^verbatim>\<open>try\<close> block of \<^verbatim>\<open>extractFinalPercent\<close>. Indexing \<^verbatim>\<open>null\<close> throws a TypeError;
  a match list with one entry gives \<^verbatim>\<open>undefined\<close> at index 1, which \<^verbatim>\<open>exec\<close> reads as the
  string \<^verbatim>\<open>"undefined"\<close>.
\<close>

definition try_extract :: "string \<Rightarrow> js_error + jsnum" where
  "try_extract html =
     (case match_marker html of
        [] \<Rightarrow> Inl TypeError
      | ms \<Rightarrow> bracket_number (if 1 < length ms then ms ! 1 else ''undefined''))"

text \<open>\<^verbatim>\<open>extractFinalPercent\<close>: \<open>None\<close> is \<^verbatim>\<open>undefined\<close>, returned by both \<^verbatim>\<open>return;\<close>.\<close>

definition extractFinalPercent :: "string \<Rightarrow> jsnum option" where
  "extractFinalPercent html =
     (case try_extract html of
        Inl e \<Rightarrow> None
      | Inr number \<Rightarrow> if number = NegInf then None else Some number)"

text \<open>The number of places of a string where a pattern stands.\<close>

fun occurrences :: "string \<Rightarrow> string \<Rightarrow> nat" where
  "occurrences pat [] = 0"
| "occurrences pat (c # cs) = (if prefix pat (c # cs) then 1 else 0) + occurrences pat cs"

subsection \<open>The assignments table\<close>

text \<open>
  What \<^verbatim>\<open>assignments\<close> reads of the page: whether \<^verbatim>\<open>querySelector\<close> finds a centered
  table (\<open>None\<close> is \<^verbatim>\<open>null\<close>), the table's \<^verbatim>\<open>tr\<close> elements in document order, and of each
  row the \<^verbatim>\<open>innerText\<close> of its \<^verbatim>\<open>td\<close> elements and whether it holds an image with the
  source \<^verbatim>\<open>/images/icon_missing.gif\<close>. The selector of the source, \<^verbatim>\<open>table[align=center\<close>,
  lacks its closing bracket; a browser's CSS parser closes the block at the end of the
  input, so it selects as \<^verbatim>\<open>table[align=center]\<close> does.
\<close>

record table_row =
  cells :: "string list"
  missing_icon :: bool

text \<open>
  \<^verbatim>\<open>new Assignment(name, score, i)\<close> for one row: the third cell, the last cell, the
  index; \<^verbatim>\<open>addStatus\<close> when the icon is there.
\<close>

definition row_assignment :: "nat \<Rightarrow> table_row \<Rightarrow> assignment" where
  "row_assignment i e =
     (let curr = cells e in
      \<lparr>assignment_name = (if 2 < length curr then curr ! 2 else []),
       score = (if curr = [] then [] else last curr),
       order = i,
       statuses = (if missing_icon e then [MISSING] else [])\<rparr>)"

definition assignments :: "table_row list option \<Rightarrow> js_error + assignment list" where
  "assignments node =
     (case node of
        None \<Rightarrow> Inl TypeError
      | Some trs \<Rightarrow> Inr (map (\<lambda>(i, e). row_assignment i e) (enumerate 0 (slice_1_m1 trs))))"

section \<open>Saved grades\<close>

text \<open>
  The browser's local storage: string keys; a user's record \<^verbatim>\<open>{courses: [...]}\<close> or the
  name of the most recent user. \<^verbatim>\<open>toObject\<close> keeps a course's five fields, so a stored
  course is a \<open>course\<close>.
\<close>

datatype stored = UserData "course list" | UserName string

type_synonym storage = "string \<rightharpoonup> stored"

text \<open>\<^verbatim>\<open>browser.storage.local.get(key)\<close>: an object with that key alone, if it is stored.\<close>

definition storage_get :: "storage \<Rightarrow> string \<Rightarrow> storage" where
  "storage_get st key = st |` {key}"

text \<open>
  \<^verbatim>\<open>saveGradesLocally\<close>: one \<^verbatim>\<open>set\<close> with the user's record and \<^verbatim>\<open>most_recent_user\<close>. The
  function does not wait for the write; the model takes it as done.
\<close>

definition saveGradesLocally :: "storage \<Rightarrow> string \<Rightarrow> course list \<Rightarrow> storage" where
  "saveGradesLocally st username courses =
     st(''USERDATA_'' @ username \<mapsto> UserData courses, ''most_recent_user'' \<mapsto> UserName username)"

text \<open>\<^verbatim>\<open>record.courses || []\<close>.\<close>

fun courses_of :: "stored \<Rightarrow> course list" where
  "courses_of (UserData cs) = cs"
| "courses_of (UserName u) = []"

text \<open>
  The object-valued names that helpers.js binds where \<^verbatim>\<open>getSavedGrades\<close> looks at the
  record: the awaited result of the storage read, which the source calls \<^verbatim>\<open>course_list\<close>.
  The file declares nothing named \<^verbatim>\<open>output\<close> (its other names are functions, tables and
  imports), and the host page is taken to define no such global.
\<close>

definition bound_objects :: "storage \<Rightarrow> string \<rightharpoonup> storage" where
  "bound_objects course_list = [''course_list'' \<mapsto> course_list]"

text \<open>
  \<^verbatim>\<open>getSavedGrades\<close>: a name that is not bound throws a ReferenceError, which rejects the
  promise (\<open>Inl\<close>). The branch behind it builds \<^verbatim>\<open>courses\<close> and returns the stored list
  \<^verbatim>\<open>course_list\<close>; with no record the function returns \<^verbatim>\<open>undefined\<close> (\<open>None\<close>).
\<close>

definition getSavedGrades :: "storage \<Rightarrow> string \<Rightarrow> js_error + course list option" where
  "getSavedGrades st username =
     (let course_list = storage_get st (''USERDATA_'' @ username) in
      case bound_objects course_list ''output'' of
        None \<Rightarrow> Inl (ReferenceError ''output'')
      | Some output \<Rightarrow>
          (case output (''USERDATA_'' @ username) of
             None \<Rightarrow> Inr None
           | Some r \<Rightarrow> Inr (Some (courses_of r))))"

section \<open>The band rule in the spec's words\<close>

text \<open>
  The value rounded to two decimal places, ties away from zero, and the letter of the
  band \<open>[lower, upper)\<close> that holds a value: the nine bands of \<^verbatim>\<open>fprange\<close> lie side by side
  from 0 to 90.
\<close>

definition rounded_2dp :: "rat \<Rightarrow> rat" where
  "rounded_2dp x = (if x < 0 then - 1 else 1) * of_int \<lfloor>\<bar>x\<bar> * 100 + 1 / 2\<rfloor> / 100"

definition band_letter :: "rat \<Rightarrow> string option" where
  "band_letter r =
     (if 85 \<le> r \<and> r < 90 then Some ''A+''
      else if 75 \<le> r \<and> r < 85 then Some ''A''
      else if 65 \<le> r \<and> r < 75 then Some ''B+''
      else if 55 \<le> r \<and> r < 65 then Some ''B''
      else if 45 \<le> r \<and> r < 55 then Some ''C+''
      else if 35 \<le> r \<and> r < 45 then Some ''C''
      else if 25 \<le> r \<and> r < 35 then Some ''D+''
      else if 15 \<le> r \<and> r < 25 then Some ''D''
      else if 0 \<le> r \<and> r < 15 then Some ''F''
      else None)"

section \<open>The weighted average in the spec's words\<close>

text \<open>
  A course counts when its grade maps to something other than -1; the denominator adds
  the credit hours of the courses that count, the numerator their credit hours times
  grade points plus boost.
\<close>

definition has_valid_gpa :: "course \<Rightarrow> bool" where
  "has_valid_gpa c = (gradeToGPA (grade c) \<noteq> Number (- 1))"

definition grade_points :: "string \<Rightarrow> rat" where
  "grade_points g = (case gradeToGPA g of Number x \<Rightarrow> x | Inherited k \<Rightarrow> 0 | Undefined \<Rightarrow> 0)"

definition denominator :: "course list \<Rightarrow> rat" where
  "denominator cs = sum_list (map (\<lambda>c. calculate_credit_hours (name c)) (filter has_valid_gpa cs))"

definition numerator :: "course list \<Rightarrow> rat" where
  "numerator cs =
     sum_list (map (\<lambda>c. calculate_credit_hours (name c) *
                          (grade_points (grade c) + course_boost (name c) (grade c)))
                 (filter has_valid_gpa cs))"

section \<open>Binary64 rounding\<close>

lemma floor_rat_numeral: "\<lfloor>numeral a / numeral b :: rat\<rfloor> = numeral a div numeral b"
  by (metis floor_divide_of_int_eq of_int_numeral)

text \<open>
  \<open>binade\<close> is the binary exponent: a positive \<open>a\<close> lies in \<open>[2^e, 2^(e+1))\<close> for
  \<open>e = binade a\<close>, and for no other \<open>e\<close>.
\<close>

lemma bit_length_0 [simp]: "bit_length 0 = 0"
  by (simp add: bit_length.simps [of 0])

lemma bit_length_1 [simp]: "bit_length (Suc 0) = Suc 0"
  by (simp add: bit_length.simps [of "Suc 0"])

lemma bit_length_bounds: "0 < n \<Longrightarrow> 2 ^ (bit_length n - 1) \<le> n \<and> n < 2 ^ bit_length n"
proof (induction n rule: bit_length.induct)
  case (1 n)
  show ?case
  proof (cases "n div 2 = 0")
    case True
    with 1(2) have "n = 1" by (simp add: div_eq_0_iff)
    then show ?thesis by simp
  next
    case False
    then have ih: "2 ^ (bit_length (n div 2) - 1) \<le> n div 2" "n div 2 < 2 ^ bit_length (n div 2)"
      using 1 by auto
    have pos: "0 < bit_length (n div 2)" using False by (subst bit_length.simps) simp
    have bl: "bit_length n = Suc (bit_length (n div 2))" using 1(2) by (simp add: bit_length.simps [of n])
    have "(2::nat) ^ bit_length (n div 2) = 2 * 2 ^ (bit_length (n div 2) - 1)"
      using pos by (cases "bit_length (n div 2)") auto
    then have "2 ^ (bit_length n - 1) \<le> 2 * (n div 2)" using ih(1) bl by simp
    moreover have "n < 2 * 2 ^ bit_length (n div 2)" using ih(2) by linarith
    ultimately show ?thesis using bl by simp
  qed
qed

lemma bit_length_pos: "0 < n \<Longrightarrow> 0 < bit_length n"
  by (subst bit_length.simps) simp

lemma bit_length_le: "n \<le> 2 ^ bit_length (n - 1)"
proof (cases "n \<le> 1")
  case True
  then show ?thesis by (cases n) auto
next
  case False
  then have "n - 1 < 2 ^ bit_length (n - 1)" using bit_length_bounds [of "n - 1"] by simp
  then show ?thesis by linarith
qed

lemma binade_bounds:
  assumes "0 < a"
  shows "2 powi binade a \<le> a" and "a < 2 powi (binade a + 1)"
proof -
  show "2 powi binade a \<le> a"
  proof (cases "1 \<le> a")
    case True
    let ?n = "nat \<lfloor>a\<rfloor>"
    have n: "0 < ?n" using True by simp
    have "2 ^ (bit_length ?n - 1) \<le> ?n" using bit_length_bounds [OF n] by simp
    then have "(2::rat) ^ (bit_length ?n - 1) \<le> of_nat ?n"
      by (metis of_nat_le_iff of_nat_numeral of_nat_power)
    also have "\<dots> \<le> a" using True by simp
    finally have le: "(2::rat) ^ (bit_length ?n - 1) \<le> a" .
    have "0 < bit_length ?n" using n by (rule bit_length_pos)
    then have "int (bit_length ?n) - 1 = int (bit_length ?n - 1)" by linarith
    moreover have "binade a = int (bit_length ?n) - 1" using True by (simp only: binade_def if_True)
    ultimately have "binade a = int (bit_length ?n - 1)" by (rule trans [OF _ _, rotated])
    then show ?thesis using le by (simp only: power_int_of_nat)
  next
    case False
    let ?m = "nat \<lceil>1 / a\<rceil>"
    let ?k = "bit_length (?m - 1)"
    have "?m \<le> 2 ^ ?k" by (rule bit_length_le)
    then have "(of_nat ?m :: rat) \<le> 2 ^ ?k"
      by (metis of_nat_le_iff of_nat_numeral of_nat_power)
    moreover have "1 / a \<le> of_nat ?m" using assms by simp
    ultimately have "1 / a \<le> 2 ^ ?k" by linarith
    then have "1 / 2 ^ ?k \<le> a" using assms
      by (simp add: field_simps)
    moreover have "binade a = - int ?k" using False by (simp only: binade_def if_False)
    ultimately show ?thesis by (simp only: power_int_minus_divide power_int_of_nat)
  qed
  show "a < 2 powi (binade a + 1)"
  proof (cases "1 \<le> a")
    case True
    let ?n = "nat \<lfloor>a\<rfloor>"
    have n: "0 < ?n" using True by simp
    have "?n < 2 ^ bit_length ?n" using bit_length_bounds [OF n] by simp
    then have "?n + 1 \<le> 2 ^ bit_length ?n" by linarith
    then have "(of_nat (?n + 1) :: rat) \<le> 2 ^ bit_length ?n"
      by (metis of_nat_le_iff of_nat_numeral of_nat_power)
    moreover have "a < of_nat (?n + 1)" using True by simp linarith
    ultimately have "a < 2 ^ bit_length ?n" by linarith
    moreover have "binade a + 1 = int (bit_length ?n)" using True by (simp only: binade_def if_True)
    ultimately show ?thesis by (simp only: power_int_of_nat)
  next
    case False
    let ?m = "nat \<lceil>1 / a\<rceil>"
    let ?k = "bit_length (?m - 1)"
    have inv: "1 < 1 / a" using False assms by (simp add: field_simps)
    then have m2: "2 \<le> ?m" by (simp add: le_nat_iff)
    then have pos: "0 < ?m - 1" by linarith
    have "2 ^ (?k - 1) \<le> ?m - 1" using bit_length_bounds [OF pos] by simp
    then have "(2::rat) ^ (?k - 1) \<le> of_nat (?m - 1)"
      by (metis of_nat_le_iff of_nat_numeral of_nat_power)
    moreover have "of_nat (?m - 1) < 1 / a"
    proof -
      have "of_int \<lceil>1 / a\<rceil> - 1 < 1 / a" by linarith
      moreover have "(of_nat (?m - 1) :: rat) = of_int \<lceil>1 / a\<rceil> - 1"
        using m2 by simp
      ultimately show ?thesis by simp
    qed
    ultimately have "(2::rat) ^ (?k - 1) < 1 / a" by linarith
    then have lt: "a < 1 / 2 ^ (?k - 1)" using assms by (simp add: field_simps)
    have "0 < ?k" using pos by (rule bit_length_pos)
    then have "- int ?k + 1 = - int (?k - 1)" by linarith
    moreover have "binade a = - int ?k" using False by (simp only: binade_def if_False)
    ultimately have "binade a + 1 = - int (?k - 1)" by linarith
    then show ?thesis using lt by (simp only: power_int_minus_divide power_int_of_nat)
  qed
qed

lemma powi_less_exp: "(2::rat) powi m < 2 powi n \<Longrightarrow> m < n"
proof (rule ccontr)
  assume lt: "(2::rat) powi m < 2 powi n" and "\<not> m < n"
  then have "n \<le> m" by simp
  then have "(2::rat) powi n \<le> 2 powi m" by (rule power_int_increasing) simp
  with lt show False by simp
qed

text \<open>
  \<open>nearest\<close> is within half a unit in the last place: for a value in the normal
  range the error is at most \<open>a / 2^53\<close>, and a multiple of the unit is kept.
\<close>

lemma round_half_even_error: "\<bar>of_int (round_half_even x) - x\<bar> \<le> 1 / 2"
proof -
  define f where "f = \<lfloor>x\<rfloor>"
  have b: "of_int f \<le> x" "x < of_int f + 1" unfolding f_def by linarith+
  show ?thesis
    unfolding round_half_even_def f_def [symmetric]
    using b by (simp add: abs_if split: if_splits)
qed

lemma round_half_even_of_int: "round_half_even (of_int z) = z"
  by (simp add: round_half_even_def)

lemma ulp_pos: "0 < ulp a"
  by (simp add: ulp_def)

lemma ulp_normal:
  assumes "0 < a" and "- 1022 \<le> binade a"
  shows "ulp a = 2 powi binade a / 2 ^ 52" and "ulp a \<le> a / 2 ^ 52"
proof -
  have "max (binade a) (- 1022) = binade a" using assms(2) by simp
  then show u: "ulp a = 2 powi binade a / 2 ^ 52"
    by (simp add: ulp_def power_int_diff)
  show "ulp a \<le> a / 2 ^ 52"
    unfolding u using binade_bounds(1) [OF assms(1)] by (simp add: divide_right_mono)
qed

lemma nearest_error:
  assumes "0 < a" and "- 1022 \<le> binade a"
  shows "\<bar>nearest a - a\<bar> \<le> a / 2 ^ 53"
proof -
  let ?x = "a / ulp a"
  have "nearest a - a = (of_int (round_half_even ?x) - ?x) * ulp a"
    using ulp_pos [of a] by (simp add: nearest_def algebra_simps)
  then have "\<bar>nearest a - a\<bar> = \<bar>of_int (round_half_even ?x) - ?x\<bar> * ulp a"
    using ulp_pos [of a] by (simp add: abs_mult)
  also have "\<dots> \<le> 1 / 2 * ulp a"
    using round_half_even_error [of ?x] ulp_pos [of a] by (intro mult_right_mono) simp_all
  also have "\<dots> \<le> 1 / 2 * (a / 2 ^ 52)"
    using ulp_normal(2) [OF assms] by (intro mult_left_mono) simp_all
  also have "\<dots> = a / 2 ^ 53" by simp
  finally show ?thesis .
qed

lemma nearest_exact:
  assumes "a / ulp a = of_int z"
  shows "nearest a = a"
proof -
  have "nearest a = of_int z * ulp a"
    unfolding nearest_def assms round_half_even_of_int ..
  also have "\<dots> = a / ulp a * ulp a" unfolding assms ..
  also have "\<dots> = a" using ulp_pos [of a] by simp
  finally show ?thesis .
qed

lemma quarters_grid:
  assumes "0 < a" and "a < 2 ^ 51" and "4 * a \<in> \<int>"
  shows "\<exists>z. a / ulp a = of_int z"
proof -
  from assms(3) obtain k where k: "4 * a = of_int k" by (auto elim: Ints_cases)
  with assms(1) have "0 < k" by (metis of_int_0_less_iff zero_less_mult_iff zero_less_numeral)
  then have "1 \<le> (of_int k :: rat)" by simp
  then have a4: "1 / 4 \<le> a" using k by linarith
  have "(2::rat) powi binade a < 2 powi 51"
    using binade_bounds(1) [OF assms(1)] assms(2) by simp
  then have hi: "binade a < 51" by (rule powi_less_exp)
  have "(2::rat) powi (- 2) < 2 powi (binade a + 1)"
    using binade_bounds(2) [OF assms(1)] a4 by (simp add: power_int_minus_divide)
  then have lo: "- 2 < binade a + 1" by (rule powi_less_exp)
  then have "- 1022 \<le> binade a" by simp
  then have u: "ulp a = 2 powi (binade a - 52)" by (simp add: ulp_def)
  define n where "n = nat (50 - binade a)"
  have n: "int n = 50 - binade a" using hi by (simp add: n_def)
  have "1 / ulp a = 2 powi (52 - binade a)"
    unfolding u by (simp add: power_int_diff)
  also have "52 - binade a = 2 + int n" using n by simp
  also have "(2::rat) powi (2 + int n) = 4 * 2 ^ n" by (simp add: power_int_add)
  finally have r: "1 / ulp a = 4 * 2 ^ n" .
  have "a / ulp a = a * (1 / ulp a)" by simp
  also have "\<dots> = 4 * a * 2 ^ n" unfolding r by simp
  finally have "a / ulp a = 4 * a * 2 ^ n" .
  then have "a / ulp a = of_int (k * 2 ^ n)" using k by simp
  then show ?thesis ..
qed

lemma binade_ge: "0 < a \<Longrightarrow> 2 powi k \<le> a \<Longrightarrow> k \<le> binade a"
proof -
  assume a: "0 < a" and k: "2 powi k \<le> a"
  have "(2::rat) powi k < 2 powi (binade a + 1)"
    using k binade_bounds(2) [OF a] by simp
  then have "k < binade a + 1" by (rule powi_less_exp)
  then show ?thesis by simp
qed

lemma binade_less: "0 < a \<Longrightarrow> a < 2 powi k \<Longrightarrow> binade a < k"
proof -
  assume a: "0 < a" and k: "a < 2 powi k"
  have "(2::rat) powi binade a < 2 powi k"
    using k binade_bounds(1) [OF a] by simp
  then show ?thesis by (rule powi_less_exp)
qed

lemma binade_unique:
  assumes "2 powi e \<le> a" and "a < 2 powi (e + 1)"
  shows "binade a = e"
proof -
  have "(0::rat) < 2 powi e" by simp
  with assms(1) have a: "0 < a" by linarith
  from binade_ge [OF a assms(1)] binade_less [OF a assms(2)] show ?thesis by simp
qed

lemma round_half_even_unique:
  assumes "\<bar>of_int m - x\<bar> < 1 / 2"
  shows "round_half_even x = m"
proof (cases "of_int m \<le> x")
  case True
  then have "\<lfloor>x\<rfloor> = m" using assms by (intro floor_unique) (simp_all add: abs_if split: if_splits)
  then show ?thesis using assms True by (simp add: round_half_even_def abs_if split: if_splits)
next
  case False
  then have "\<lfloor>x\<rfloor> = m - 1" using assms by (intro floor_unique) (simp_all add: abs_if split: if_splits)
  then show ?thesis using assms False by (simp add: round_half_even_def abs_if split: if_splits)
qed

lemma overflow_threshold_ge: "2 ^ 64 \<le> overflow_threshold"
  unfolding overflow_threshold_def by (rule power_increasing) simp_all

lemma nearest_bounds:
  assumes "0 < a" and "- 1022 \<le> binade a"
  shows "a - a / 2 ^ 53 \<le> nearest a" and "nearest a \<le> a + a / 2 ^ 53"
  using nearest_error [OF assms] unfolding abs_le_iff by linarith+

lemma nearest_pos:
  assumes "0 < a" and "- 1022 \<le> binade a"
  shows "0 < nearest a"
proof -
  have "a / 2 ^ 53 < a" using assms(1) by (simp add: field_simps)
  with nearest_bounds(1) [OF assms] show ?thesis by linarith
qed

lemma round64_minus: "round64 (- q) = negate (round64 q)"
  by (simp add: round64_def)

lemma round64_pos_cases:
  "0 < a \<Longrightarrow> round64 a = PosInf \<or> round64 a = Fin (nearest a)"
  by (simp add: round64_def)

lemma round64_small:
  assumes "0 < a" and "a < 2 ^ 63" and "- 1022 \<le> binade a"
  shows "round64 a = Fin (nearest a)"
proof -
  have "a / 2 ^ 53 \<le> a" using assms(1) by (simp add: field_simps)
  with nearest_bounds(2) [OF assms(1,3)] have "nearest a \<le> 2 * a" by linarith
  also have "\<dots> < 2 * 2 ^ 63" using assms(2) by simp
  also have "\<dots> = (2::rat) ^ 64" by simp
  finally have "nearest a < overflow_threshold" using overflow_threshold_ge by linarith
  then show ?thesis using assms(1) by (simp add: round64_def)
qed

text \<open>Multiples of a quarter below \<open>2^51\<close> are binary64 values.\<close>

lemma round64_exact:
  assumes "4 * q \<in> \<int>" and "\<bar>q\<bar> < 2 ^ 51"
  shows "round64 q = Fin q"
proof -
  have pos: "round64 a = Fin a" if a: "0 < a" "a < 2 ^ 51" "4 * a \<in> \<int>" for a
  proof -
    obtain z where z: "a / ulp a = of_int z" using quarters_grid [OF a] ..
    have n: "nearest a = a" by (rule nearest_exact [OF z])
    have "a < 2 ^ 64" using a(2) by simp
    then have "nearest a < overflow_threshold" using overflow_threshold_ge n by linarith
    then show ?thesis using a(1) n by (simp add: round64_def)
  qed
  consider "q = 0" | "0 < q" | "q < 0" by linarith
  then show ?thesis
  proof cases
    case 1
    then show ?thesis by (simp add: round64_def)
  next
    case 2
    then show ?thesis using pos [of q] assms by simp
  next
    case 3
    have "4 * (- q) \<in> \<int>" using assms(1) by (metis Ints_minus mult_minus_right)
    then have "round64 (- q) = Fin (- q)" using pos [of "- q"] 3 assms(2) by simp
    then show ?thesis using round64_minus [of "- q"] by simp
  qed
qed

text \<open>
  A value with a given binade and a mantissa within half a unit of its quotient.
\<close>

lemma round64_certificate:
  assumes "2 powi e \<le> a" and "a < 2 powi (e + 1)" and "- 1022 \<le> e" and "e < 62"
    and "\<bar>of_int m - a / 2 powi (e - 52)\<bar> < 1 / 2"
  shows "round64 a = Fin (of_int m * 2 powi (e - 52))"
proof -
  have "(0::rat) < 2 powi e" by simp
  with assms(1) have a: "0 < a" by linarith
  have b: "binade a = e" by (rule binade_unique [OF assms(1,2)])
  have u: "ulp a = 2 powi (e - 52)" using assms(3) by (simp add: ulp_def b)
  have n: "nearest a = of_int m * 2 powi (e - 52)"
    unfolding nearest_def u using round_half_even_unique [OF assms(5)] by simp
  have "(2::rat) powi (e + 1) \<le> 2 powi 63"
    using assms(4) by (intro power_int_increasing) simp_all
  then have "a < 2 ^ 63" using assms(2) by simp
  then have "round64 a = Fin (nearest a)" using a b assms(3) by (intro round64_small) simp_all
  then show ?thesis by (simp only: n)
qed

lemma round64_examples:
  "round64 85 = Fin 85" "round64 (9 / 2) = Fin (9 / 2)" "round64 (- 1) = Fin (- 1)"
  "round64 (9 / 5) = Fin (8106479329266893 / 4503599627370496)"
  "round64 (2999 / 200) = Fin (8441434551552573 / 562949953421312)"
  "round64 (121 / 40) = Fin (6811694436397875 / 2251799813685248)"
  "round64 (16999 / 200) = Fin (747623926422569 / 8796093022208)"
proof -
  show "round64 85 = Fin 85" "round64 (9 / 2) = Fin (9 / 2)" "round64 (- 1) = Fin (- 1)"
    by (simp_all add: round64_exact)
  show "round64 (9 / 5) = Fin (8106479329266893 / 4503599627370496)"
    using round64_certificate [of 0 "9 / 5" 8106479329266893] by simp
  show "round64 (2999 / 200) = Fin (8441434551552573 / 562949953421312)"
    using round64_certificate [of 3 "2999 / 200" 8441434551552573] by simp
  show "round64 (121 / 40) = Fin (6811694436397875 / 2251799813685248)"
    using round64_certificate [of 1 "121 / 40" 6811694436397875] by simp
  show "round64 (16999 / 200) = Fin (747623926422569 / 8796093022208)"
    using round64_certificate [of 6 "16999 / 200" 5980991411380552] by simp
qed

text \<open>
  Rounding a multiple of 1/100 to binary64 does not carry it across a whole number up
  to 1000: the comparisons of the rounded value with the number are those of the exact
  value.
\<close>

lemma hundredths_gap:
  fixes r b :: rat
  assumes "100 * r \<in> \<int>" and "b \<in> \<int>" and "r < b"
  shows "r \<le> b - 1 / 100"
proof -
  obtain k where k: "100 * r = of_int k" using assms(1) by (auto elim: Ints_cases)
  obtain j where j: "b = of_int j" using assms(2) by (auto elim: Ints_cases)
  have "(of_int k :: rat) < of_int (100 * j)" using assms(3) k j by simp
  then have "k < 100 * j" by (simp only: of_int_less_iff)
  then have "k \<le> 100 * j - 1" by simp
  then have "(of_int k :: rat) \<le> of_int (100 * j - 1)" by (simp only: of_int_le_iff)
  then show ?thesis using k j by simp
qed

lemma round64_grid_pos:
  assumes r: "100 * r \<in> \<int>" "0 < r" and b: "b \<in> \<int>" "0 \<le> b" "b \<le> 1000"
  shows "js_less (round64 r) (Fin b) = (r < b)"
    and "js_greater_eq (round64 r) (Fin b) = (b \<le> r)"
proof -
  have "100 * (- r) \<in> \<int>" using r(1) by (metis Ints_minus mult_minus_right)
  moreover have "- r < 0" using r(2) by simp
  ultimately have "- r \<le> 0 - 1 / 100" by (intro hundredths_gap) simp_all
  then have r100: "1 / 100 \<le> r" by simp
  have "(2::rat) powi (- 7) \<le> r" using r100 by simp
  then have "- 7 \<le> binade r" by (rule binade_ge [OF r(2)])
  then have nb: "- 1022 \<le> binade r" by simp
  note nbs = nearest_bounds [OF r(2) nb]
  have both: "js_less (round64 r) (Fin b) = (r < b) \<and> js_greater_eq (round64 r) (Fin b) = (b \<le> r)"
  proof (cases "r < b")
    case True
    then have le: "r \<le> b - 1 / 100" by (rule hundredths_gap [OF r(1) b(1)])
    have "r < 2 ^ 63" using True b(3) by simp
    then have f: "round64 r = Fin (nearest r)" by (rule round64_small [OF r(2) _ nb])
    have "r / 2 ^ 53 < 1 / 100" using True b(3) by simp
    then have "nearest r < b" using nbs(2) le by linarith
    then show ?thesis using True f by simp
  next
    case False
    have ge: "b \<le> nearest r"
    proof (cases "r = b")
      case True
      have "4 * r \<in> \<int>" unfolding True using b(1) by simp
      moreover have "\<bar>r\<bar> < 2 ^ 51" unfolding True using b(2,3) by simp
      ultimately have "round64 r = Fin r" by (rule round64_exact)
      moreover have "r < 2 ^ 63" unfolding True using b(3) by simp
      then have "round64 r = Fin (nearest r)" by (rule round64_small [OF r(2) _ nb])
      ultimately show ?thesis using True by simp
    next
      case ne: False
      with False have "b < r" by simp
      then have "- r < - b" by simp
      moreover have "100 * (- r) \<in> \<int>" using r(1) by (metis Ints_minus mult_minus_right)
      moreover have "- b \<in> \<int>" using b(1) by simp
      ultimately have "- r \<le> - b - 1 / 100" by (intro hundredths_gap)
      then have "b + 1 / 100 \<le> r" by simp
      moreover have "b / 2 ^ 53 < 1 / 200" using b(3) by simp
      ultimately show ?thesis using nbs(1) by simp
    qed
    from round64_pos_cases [OF r(2)] show ?thesis
    proof
      assume "round64 r = PosInf"
      then show ?thesis using False by simp
    next
      assume "round64 r = Fin (nearest r)"
      then show ?thesis using False ge by simp
    qed
  qed
  from both show "js_less (round64 r) (Fin b) = (r < b)" ..
  from both show "js_greater_eq (round64 r) (Fin b) = (b \<le> r)" ..
qed

lemma round64_grid:
  assumes r: "100 * r \<in> \<int>" and b: "b \<in> \<int>" "0 \<le> b" "b \<le> 1000"
  shows "js_less (round64 r) (Fin b) = (r < b)"
    and "js_greater_eq (round64 r) (Fin b) = (b \<le> r)"
proof -
  consider "r = 0" | "0 < r" | "r < 0" by linarith
  then have "js_less (round64 r) (Fin b) = (r < b) \<and> js_greater_eq (round64 r) (Fin b) = (b \<le> r)"
  proof cases
    case 1
    then show ?thesis using b(2) by (auto simp: round64_def)
  next
    case 2
    then show ?thesis using round64_grid_pos [OF r 2 b] by simp
  next
    case 3
    have m: "100 * (- r) \<in> \<int>" using r by (metis Ints_minus mult_minus_right)
    have p: "0 < - r" using 3 by simp
    have z: "(0::rat) \<in> \<int>" by simp
    have "js_less (round64 (- r)) (Fin 0) = (- r < 0)"
      by (rule round64_grid_pos(1) [OF m p z]) simp_all
    then have nl: "\<not> js_less (round64 (- r)) (Fin 0)" using 3 by simp
    from round64_pos_cases [OF p] show ?thesis
    proof
      assume "round64 (- r) = PosInf"
      then have "round64 r = NegInf" using round64_minus [of "- r"] by simp
      then show ?thesis using 3 b(2) by simp
    next
      assume f: "round64 (- r) = Fin (nearest (- r))"
      then have "0 \<le> nearest (- r)" using nl by simp
      moreover have "round64 r = Fin (- nearest (- r))" using round64_minus [of "- r"] f by simp
      moreover have "nearest (- r) \<noteq> 0"
      proof -
        have "(2::rat) powi (- 7) \<le> - r" using hundredths_gap [of r 0] r 3 by simp
        then have "- 7 \<le> binade (- r)" by (rule binade_ge [OF p])
        then have "0 < nearest (- r)" by (intro nearest_pos [OF p]) simp
        then show ?thesis by simp
      qed
      ultimately show ?thesis using 3 b(2) by simp
    qed
  qed
  then show "js_less (round64 r) (Fin b) = (r < b)"
    and "js_greater_eq (round64 r) (Fin b) = (b \<le> r)" by simp_all
qed

section \<open>Numbers and their text\<close>

lemmas scan_defs =
  parseFloat_def scan_decimal_def scan_unsigned_def scan_exponent_def scan_nondecimal_def
  string_to_number_def isNaN_def trim_def is_ws_def is_digit_def decimal_value_def
  digits_val_def hex_val_def

text \<open>
  The empty string is where \<^verbatim>\<open>isNaN\<close> and \<^verbatim>\<open>parseFloat\<close> part: \<open>ToNumber\<close> reads it as 0,
  \<^verbatim>\<open>parseFloat\<close> as NaN. A string with a digit in front and letters behind is the other way
  round.
\<close>

lemma empty_token: "\<not> isNaN (Some [])" "parseFloat [] = NaN"
  by (simp_all add: scan_defs)

lemma trailing_letters: "isNaN (Some ''12abc'')" "parseFloat ''12abc'' = Fin 12"
  by (simp_all add: scan_defs round64_exact)

lemma parseFloat_examples:
  "parseFloat ''87'' = Fin 87" "parseFloat ''42'' = Fin 42" "parseFloat ''84.75'' = Fin (339 / 4)"
  "parseFloat ''NaN'' = NaN" "parseFloat ''Infinity'' = PosInf" "parseFloat ''-Infinity'' = NegInf"
  by (simp_all add: scan_defs round64_exact)

text \<open>
  A decimal that binary64 does not hold is read as its nearest binary64 value:
  \<^verbatim>\<open>"14.995"\<close> as a number just below 14.995, which \<^verbatim>\<open>toFixed(2)\<close> prints as
  \<^verbatim>\<open>"14.99"\<close>, and \<^verbatim>\<open>"84.995"\<close> as one just above.
\<close>

lemma parseFloat_inexact:
  "parseFloat ''14.995'' = Fin (8441434551552573 / 562949953421312)"
  "parseFloat ''84.995'' = Fin (747623926422569 / 8796093022208)"
  by (simp_all add: scan_defs round64_examples)

lemma digit_cases: "d < 10 \<Longrightarrow> d \<in> {0, 1, 2, 3, 4, 5, 6, 7, 8, 9::nat}"
  by auto

lemma digit_char_values:
  "hex_val (digit_char 0) = Some 0" "hex_val (digit_char 1) = Some 1"
  "hex_val (digit_char 2) = Some 2" "hex_val (digit_char 3) = Some 3"
  "hex_val (digit_char 4) = Some 4" "hex_val (digit_char 5) = Some 5"
  "hex_val (digit_char 6) = Some 6" "hex_val (digit_char 7) = Some 7"
  "hex_val (digit_char 8) = Some 8" "hex_val (digit_char 9) = Some 9"
  by (simp_all add: hex_val_def digit_char_def)

lemma digit_char_digits:
  "is_digit (digit_char 0)" "is_digit (digit_char 1)" "is_digit (digit_char 2)"
  "is_digit (digit_char 3)" "is_digit (digit_char 4)" "is_digit (digit_char 5)"
  "is_digit (digit_char 6)" "is_digit (digit_char 7)" "is_digit (digit_char 8)"
  "is_digit (digit_char 9)"
  by (simp_all add: is_digit_def digit_char_def)

lemma hex_val_digit_char: "d < 10 \<Longrightarrow> hex_val (digit_char d) = Some d"
  using digit_char_values by (auto dest!: digit_cases)

lemma is_digit_digit_char: "d < 10 \<Longrightarrow> is_digit (digit_char d)"
  using digit_char_digits by (auto dest!: digit_cases)

lemma dec_digits_digits: "c \<in> set (dec_digits n) \<Longrightarrow> is_digit c"
proof (induction n rule: dec_digits.induct)
  case (1 n)
  show ?case
  proof (cases "n < 10")
    case True
    with 1(2) show ?thesis by (simp add: dec_digits.simps [of n] is_digit_digit_char)
  next
    case False
    with 1 show ?thesis
      by (auto simp: dec_digits.simps [of n] is_digit_digit_char)
  qed
qed

lemma digits_val_snoc:
  "digits_val b (ds @ [c]) = b * digits_val b ds + (case hex_val c of Some d \<Rightarrow> d | None \<Rightarrow> 0)"
  by (simp add: digits_val_def)

text \<open>Reading the decimal digits of a number gives the number back.\<close>

lemma digits_val_dec_digits: "digits_val 10 (dec_digits n) = n"
proof (induction n rule: dec_digits.induct)
  case (1 n)
  show ?case
  proof (cases "n < 10")
    case True
    then show ?thesis
      by (simp add: dec_digits.simps [of n] digits_val_def hex_val_digit_char)
  next
    case False
    with 1 show ?thesis
      by (simp add: dec_digits.simps [of n] digits_val_snoc hex_val_digit_char)
  qed
qed

lemma digits_val_zeros: "digits_val 10 (replicate k CHR ''0'' @ ds) = digits_val 10 ds"
proof -
  have "foldl (\<lambda>a c. 10 * a + (case hex_val c of Some d \<Rightarrow> d | None \<Rightarrow> 0)) 0
          (replicate k CHR ''0'') = 0"
    by (induction k) (simp_all add: hex_val_def)
  then show ?thesis by (simp add: digits_val_def)
qed

lemma fixed_digits_length: "3 \<le> length (fixed_digits n)"
  by (simp add: fixed_digits_def)

lemma fixed_digits_digits: "c \<in> set (fixed_digits n) \<Longrightarrow> is_digit c"
  using digit_char_digits(1) by (auto simp: fixed_digits_def dec_digits_digits digit_char_def)

lemma fixed_digits_val: "digits_val 10 (fixed_digits n) = n"
  by (simp add: fixed_digits_def digits_val_zeros digits_val_dec_digits)

lemma is_digit_chars:
  assumes "is_digit c"
  shows "c \<noteq> CHR ''.''" "c \<noteq> CHR ''-''" "c \<noteq> CHR ''+''" "c \<noteq> CHR ''I''" "\<not> is_ws c"
  using assms by (auto simp: is_digit_def is_ws_def)

text \<open>Digits, a point and digits are read as one literal, to the end.\<close>

lemma scan_unsigned_fixed:
  assumes "ip \<noteq> []" and ip: "\<forall>c\<in>set ip. is_digit c" and fp: "\<forall>c\<in>set fp. is_digit c"
  shows "scan_unsigned (ip @ CHR ''.'' # fp) =
           Some (decimal_value (ip @ fp) (- int (length fp)), [])"
proof -
  obtain c cs where ipc: "ip = c # cs" using assms(1) by (cases ip) auto
  then have "is_digit c" using ip by simp
  then have noinf: "\<not> prefix ''Infinity'' (ip @ CHR ''.'' # fp)"
    using is_digit_chars(4) [of c] by (simp add: ipc)
  have tw: "takeWhile is_digit (ip @ CHR ''.'' # fp) = ip"
    using ip by (simp add: is_digit_def)
  have dw: "dropWhile is_digit (ip @ CHR ''.'' # fp) = CHR ''.'' # fp"
    using ip by (simp add: is_digit_def)
  have tw2: "takeWhile is_digit fp = fp" using fp by simp
  have dw2: "dropWhile is_digit fp = []" using fp by simp
  show ?thesis
    using noinf assms(1)
    by (simp add: scan_unsigned_def tw dw tw2 dw2 scan_exponent_def Let_def)
qed

lemma parseFloat_fixed:
  assumes "ip \<noteq> []" and ip: "\<forall>c\<in>set ip. is_digit c" and fp: "\<forall>c\<in>set fp. is_digit c"
  shows "parseFloat (ip @ CHR ''.'' # fp) = decimal_value (ip @ fp) (- int (length fp))"
    and "parseFloat (CHR ''-'' # ip @ CHR ''.'' # fp) =
           negate (decimal_value (ip @ fp) (- int (length fp)))"
proof -
  obtain c cs where ipc: "ip = c # cs" using assms(1) by (cases ip) auto
  then have c: "is_digit c" using ip by simp
  show "parseFloat (ip @ CHR ''.'' # fp) = decimal_value (ip @ fp) (- int (length fp))"
    using scan_unsigned_fixed [OF assms] is_digit_chars [OF c]
    by (simp add: parseFloat_def scan_decimal_def ipc)
  show "parseFloat (CHR ''-'' # ip @ CHR ''.'' # fp) =
          negate (decimal_value (ip @ fp) (- int (length fp)))"
    using scan_unsigned_fixed [OF assms]
    by (simp add: parseFloat_def scan_decimal_def is_ws_def)
qed

lemma toFixed2_Fin:
  "toFixed2 (Fin q) =
     (if q < 0 then ''-'' else []) @
       take (length (fixed_digits (round_hundredths q)) - 2) (fixed_digits (round_hundredths q)) @
       CHR ''.'' #
       drop (length (fixed_digits (round_hundredths q)) - 2) (fixed_digits (round_hundredths q))"
  by (simp add: toFixed2_def Let_def)

text \<open>
  What \<^verbatim>\<open>toFixed(2)\<close> prints has digits before the point and exactly two behind it.
\<close>

lemma toFixed2_two_places:
  "\<exists>ip fp. toFixed2 (Fin q) = (if q < 0 then ''-'' else []) @ ip @ ''.'' @ fp \<and>
      ip \<noteq> [] \<and> length fp = 2 \<and> list_all is_digit ip \<and> list_all is_digit fp"
proof -
  let ?m = "fixed_digits (round_hundredths q)"
  let ?ip = "take (length ?m - 2) ?m" and ?fp = "drop (length ?m - 2) ?m"
  have "3 \<le> length ?m" by (rule fixed_digits_length)
  then have "?ip \<noteq> []" "length ?fp = 2" by auto
  moreover have "list_all is_digit ?ip"
    by (auto simp: list_all_iff dest: in_set_takeD fixed_digits_digits)
  moreover have "list_all is_digit ?fp"
    by (auto simp: list_all_iff dest: in_set_dropD fixed_digits_digits)
  moreover have "toFixed2 (Fin q) = (if q < 0 then ''-'' else []) @ ?ip @ ''.'' @ ?fp"
    by (simp add: toFixed2_Fin)
  ultimately show ?thesis by blast
qed

text \<open>
  Printing with \<^verbatim>\<open>toFixed(2)\<close> and parsing the text rounds to two decimal places.
\<close>

lemma parseFloat_toFixed2: "parseFloat (toFixed2 (Fin q)) = round64 (rounded_2dp q)"
proof -
  let ?m = "fixed_digits (round_hundredths q)"
  let ?ip = "take (length ?m - 2) ?m" and ?fp = "drop (length ?m - 2) ?m"
  have len: "3 \<le> length ?m" by (rule fixed_digits_length)
  have ip: "?ip \<noteq> []" using len by auto
  have ipd: "\<forall>c\<in>set ?ip. is_digit c" by (auto dest: in_set_takeD fixed_digits_digits)
  have fpd: "\<forall>c\<in>set ?fp. is_digit c" by (auto dest: in_set_dropD fixed_digits_digits)
  have lfp: "length ?fp = 2" using len by simp
  have val: "decimal_value (?ip @ ?fp) (- int (length ?fp)) =
               round64 (of_nat (round_hundredths q) / 100)"
    unfolding lfp append_take_drop_id by (simp add: decimal_value_def fixed_digits_val)
  have nn: "(of_nat (round_hundredths q) :: rat) = of_int \<lfloor>\<bar>q\<bar> * 100 + 1 / 2\<rfloor>"
  proof -
    have "0 \<le> \<lfloor>\<bar>q\<bar> * 100 + 1 / 2\<rfloor>" by simp
    then show ?thesis unfolding round_hundredths_def by simp
  qed
  show ?thesis
  proof (cases "q < 0")
    case True
    then show ?thesis
      using parseFloat_fixed(2) [OF ip ipd fpd] val nn
      by (simp add: toFixed2_Fin round64_minus [symmetric] rounded_2dp_def)
  next
    case False
    then show ?thesis
      using parseFloat_fixed(1) [OF ip ipd fpd] val nn
      by (simp add: toFixed2_Fin rounded_2dp_def)
  qed
qed

lemma dec_digits_examples:
  "dec_digits 0 = ''0''" "dec_digits 400 = ''400''" "dec_digits 450 = ''450''"
  by (simp_all add: dec_digits.simps digit_char_def)

lemma toFixed2_examples:
  "toFixed2 (Fin 4) = ''4.00''" "toFixed2 (Fin (9 / 2)) = ''4.50''" "toFixed2 NaN = ''NaN''"
  by (simp_all add: toFixed2_def round_hundredths_def fixed_digits_def floor_rat_numeral
      dec_digits_examples)

section \<open>Letter grades: \<^verbatim>\<open>gradeToGPA\<close> and \<^verbatim>\<open>gradeToFP\<close>\<close>

lemmas grade_table_defs =
  gradeToGPA_def gradeToFP_def has_property_def get_property_def grade_gpa_def grade_fp_def
  object_prototype_keys_def

lemma gradeToGPA_canonical:
  "gradeToGPA ''A+'' = Number (9 / 2)" "gradeToGPA ''A'' = Number 4"
  "gradeToGPA ''B+'' = Number (7 / 2)" "gradeToGPA ''B'' = Number 3"
  "gradeToGPA ''C+'' = Number (5 / 2)" "gradeToGPA ''C'' = Number 2"
  "gradeToGPA ''D+'' = Number (3 / 2)" "gradeToGPA ''D'' = Number 1"
  "gradeToGPA ''F'' = Number 0"
  by (simp_all add: grade_table_defs)

lemma gradeToFP_canonical:
  "gradeToFP ''A+'' = Number 90" "gradeToFP ''A'' = Number 80"
  "gradeToFP ''B+'' = Number 70" "gradeToFP ''B'' = Number 60"
  "gradeToFP ''C+'' = Number 50" "gradeToFP ''C'' = Number 40"
  "gradeToFP ''D+'' = Number 30" "gradeToFP ''D'' = Number 20"
  "gradeToFP ''F'' = Number 10"
  by (simp_all add: grade_table_defs)

text \<open>
  A string that is neither one of the nine grades nor the name of an inherited member
  gives -1 in both tables.
\<close>

lemma gradeToGPA_not_found:
  assumes "g \<notin> set avaliableGrades" and "g \<notin> set object_prototype_keys"
  shows "gradeToGPA g = Number (- 1)" and "gradeToFP g = Number (- 1)"
  using assms
  by (auto simp: gradeToGPA_def gradeToFP_def has_property_def grade_gpa_def grade_fp_def
      avaliableGrades_def)

lemma gradeToGPA_examples_not_found:
  "gradeToGPA [] = Number (- 1)" "gradeToGPA ''a+'' = Number (- 1)"
  "gradeToGPA ''A++'' = Number (- 1)"
  "gradeToFP [] = Number (- 1)" "gradeToFP ''a+'' = Number (- 1)"
  "gradeToFP ''A++'' = Number (- 1)"
  by (simp_all add: grade_table_defs)

lemma inherited_not_own:
  assumes "g \<in> set object_prototype_keys"
  shows "map_of grade_gpa g = None" and "map_of grade_fp g = None"
  using assms unfolding object_prototype_keys_def set_simps insert_iff empty_iff
  by (elim disjE; simp add: grade_gpa_def grade_fp_def)+

text \<open>The name of an inherited member is found by \<^verbatim>\<open>in\<close>, and the member is returned.\<close>

lemma gradeToGPA_inherited:
  "g \<in> set object_prototype_keys \<Longrightarrow> gradeToGPA g = Inherited g \<and> gradeToFP g = Inherited g"
  by (simp add: gradeToGPA_def gradeToFP_def has_property_def get_property_def inherited_not_own)

lemma gradeToGPA_Number:
  "g \<notin> set object_prototype_keys \<Longrightarrow> \<exists>x. gradeToGPA g = Number x"
  by (auto simp: gradeToGPA_def has_property_def get_property_def)

text \<open>
  Claim C2 says that both conversions return -1 for every string that is not one of the
  nine letter grades. The string \<^verbatim>\<open>"constructor"\<close> is not a letter grade, yet
  \<^verbatim>\<open>"constructor" in grade_gpa\<close> holds through the prototype, and both functions return the
  inherited member instead of -1.
\<close>

theorem gradeToGPA_constructor:
  "gradeToGPA ''constructor'' = Inherited ''constructor'' \<and>
   gradeToFP ''constructor'' = Inherited ''constructor'' \<and>
   gradeToGPA ''constructor'' \<noteq> Number (- 1) \<and> gradeToFP ''constructor'' \<noteq> Number (- 1) \<and>
   ''constructor'' \<notin> set avaliableGrades"
  by (simp add: grade_table_defs avaliableGrades_def)

section \<open>Final percent to letter: \<^verbatim>\<open>fpToGrade\<close>\<close>

lemma fprange_bounds:
  "key_bounds ''85-90'' = (Fin 85, Fin 90)" "key_bounds ''75-85'' = (Fin 75, Fin 85)"
  "key_bounds ''65-75'' = (Fin 65, Fin 75)" "key_bounds ''55-65'' = (Fin 55, Fin 65)"
  "key_bounds ''45-55'' = (Fin 45, Fin 55)" "key_bounds ''35-45'' = (Fin 35, Fin 45)"
  "key_bounds ''25-35'' = (Fin 25, Fin 35)" "key_bounds ''15-25'' = (Fin 15, Fin 25)"
  "key_bounds ''0-15'' = (Fin 0, Fin 15)"
  by (simp_all add: key_bounds_def scan_defs round64_exact)

lemma top_band_fprange: "top_band fprange = Some (''85-90'', ''A+'')"
  by (simp add: fprange_def fprange_bounds)

text \<open>
  The lookup in \<^verbatim>\<open>fprange\<close> for a finite value: the letter of its band below 90, and the
  top letter from 90 on.
\<close>

lemma getKeyRange_fprange_Fin:
  "getKeyRange fprange (Fin r) = (if 90 \<le> r then Some ''A+'' else band_letter r)"
  by (simp add: getKeyRange_def top_band_fprange in_band_def fprange_def fprange_bounds
      band_letter_def)

lemma getKeyRange_fprange_not_finite:
  "getKeyRange fprange NaN = None" "getKeyRange fprange PosInf = Some ''A+''"
  "getKeyRange fprange NegInf = None"
  by (simp_all add: getKeyRange_def top_band_fprange in_band_def fprange_def fprange_bounds)

text \<open>
  The same for the binary64 value of a multiple of 1/100: the rounding does not move
  the value into another band.
\<close>

lemma getKeyRange_fprange_round64:
  assumes "100 * r \<in> \<int>"
  shows "getKeyRange fprange (round64 r) = (if 90 \<le> r then Some ''A+'' else band_letter r)"
  by (simp add: getKeyRange_def top_band_fprange in_band_def fprange_def fprange_bounds
      band_letter_def round64_grid [OF assms])

lemma rounded_2dp_hundredths: "100 * rounded_2dp x \<in> \<int>"
  by (simp add: rounded_2dp_def)

lemma band_letter_range: "(band_letter r \<noteq> None) = (0 \<le> r \<and> r < 90)"
  by (auto simp: band_letter_def)

lemma rounded_2dp_examples:
  "rounded_2dp 87 = 87" "rounded_2dp 42 = 42" "rounded_2dp 0 = 0" "rounded_2dp (339 / 4) = 339 / 4"
  "rounded_2dp (8441434551552573 / 562949953421312) = 1499 / 100"
  "rounded_2dp (747623926422569 / 8796093022208) = 85"
proof -
  have "\<lfloor>1 / 2 :: rat\<rfloor> = 0" by (rule floor_unique) simp_all
  then show "rounded_2dp 0 = 0" by (simp add: rounded_2dp_def)
qed (simp_all add: rounded_2dp_def floor_rat_numeral)

lemma fpToGrade_Num:
  "fpToGrade (Num (Fin x)) =
     (if 90 \<le> rounded_2dp x then Some ''A+'' else band_letter (rounded_2dp x))"
  by (simp add: fpToGrade_def parseFloat_toFixed2
      getKeyRange_fprange_round64 [OF rounded_2dp_hundredths])

text \<open>
  Claim C8: \<^verbatim>\<open>fpToGrade\<close> parses its argument as a floating value, rounds it to two
  decimal places and returns the letter of the band \<open>[lower, upper)\<close> that holds the
  rounded value; the nine bands lie side by side and cover \<open>[0, 90)\<close>, so every rounded
  value in that range has a letter. This holds of a number \<open>x\<close> and of a string \<open>s\<close>, which
  \<^verbatim>\<open>parseFloat\<close> reads as the binary64 value \<open>y\<close>. \<^verbatim>\<open>fpToGrade(87)\<close> is \<^verbatim>\<open>"A+"\<close> and
  \<^verbatim>\<open>fpToGrade(42)\<close> is \<^verbatim>\<open>"C"\<close>, for the numbers and for their text; the text
  \<^verbatim>\<open>"14.995"\<close> is read as a value below 14.995, rounds to 14.99 and gets \<^verbatim>\<open>"F"\<close>. The
  band lookup is the one modelled from the spec.
\<close>

theorem fpToGrade_band:
  "(0 \<le> rounded_2dp x \<and> rounded_2dp x < 90 \<longrightarrow>
      fpToGrade (Num (Fin x)) = band_letter (rounded_2dp x) \<and>
      band_letter (rounded_2dp x) \<noteq> None) \<and>
   (parseFloat s = Fin y \<and> 0 \<le> rounded_2dp y \<and> rounded_2dp y < 90 \<longrightarrow>
      fpToGrade (Str s) = band_letter (rounded_2dp y) \<and>
      band_letter (rounded_2dp y) \<noteq> None) \<and>
   fpToGrade (Num (Fin 87)) = Some ''A+'' \<and>
   fpToGrade (Num (Fin 42)) = Some ''C'' \<and>
   fpToGrade (Str ''87'') = Some ''A+'' \<and>
   fpToGrade (Str ''42'') = Some ''C'' \<and>
   fpToGrade (Str ''14.995'') = Some ''F''"
proof -
  have a: "fpToGrade (Num (Fin z)) = band_letter (rounded_2dp z) \<and>
           band_letter (rounded_2dp z) \<noteq> None"
    if "0 \<le> rounded_2dp z \<and> rounded_2dp z < 90" for z
  proof -
    have "fpToGrade (Num (Fin z)) = band_letter (rounded_2dp z)"
      using that by (simp add: fpToGrade_Num)
    moreover have "band_letter (rounded_2dp z) \<noteq> None"
      using that by (simp only: band_letter_range)
    ultimately show ?thesis by (rule conjI)
  qed
  have b: "fpToGrade (Str t) = fpToGrade (Num (Fin v))" if "parseFloat t = Fin v" for t v
    using that by (simp add: fpToGrade_def)
  have c: "fpToGrade (Num (Fin 87)) = Some ''A+''" "fpToGrade (Num (Fin 42)) = Some ''C''"
    unfolding fpToGrade_Num rounded_2dp_examples by (simp_all add: band_letter_def)
  have d: "fpToGrade (Str ''87'') = Some ''A+''" "fpToGrade (Str ''42'') = Some ''C''"
    using c b [of "''87''" 87] b [of "''42''" 42]
    by (simp_all add: parseFloat_examples del: parseFloat_arg.simps)
  have e: "fpToGrade (Str ''14.995'') = Some ''F''"
    unfolding b [OF parseFloat_inexact(1)] fpToGrade_Num rounded_2dp_examples
    by (simp add: band_letter_def)
  show ?thesis using a [of x] a [of y] b [of s y] c d e by (intro conjI impI) simp_all
qed

theorem fpToGrade_band_witness:
  "fpToGrade (Num (Fin (339 / 4))) = Some ''A'' \<and>
   fpToGrade (Num (Fin 0)) = Some ''F'' \<and>
   fpToGrade (Str ''84.75'') = Some ''A'' \<and>
   fpToGrade (Str ''84.995'') = Some ''A+''"
  using fpToGrade_band [of "339 / 4" "''84.75''" "339 / 4"]
    fpToGrade_band [of 0 "''84.995''" "747623926422569 / 8796093022208"]
  by (simp add: parseFloat_examples parseFloat_inexact rounded_2dp_examples band_letter_def)

text \<open>
  Outside the bands the spec's rule decides: a rounded value of 90 or more gets the
  top letter, a negative one and an argument that is not a number get none.
\<close>

lemma fpToGrade_outside:
  "90 \<le> rounded_2dp x \<Longrightarrow> fpToGrade (Num (Fin x)) = Some ''A+''"
  "rounded_2dp x < 0 \<Longrightarrow> fpToGrade (Num (Fin x)) = None"
  by (simp_all add: fpToGrade_Num band_letter_def)

lemma fpToGrade_not_finite:
  "fpToGrade (Num NaN) = None" "fpToGrade (Num PosInf) = Some ''A+''"
  "fpToGrade (Num NegInf) = None" "fpToGrade Undef = None"
  by (simp_all add: fpToGrade_def toFixed2_def parseFloat_examples getKeyRange_fprange_not_finite)

section \<open>Credit hours and the course boost\<close>

text \<open>
  Claim C7: \<^verbatim>\<open>calculate_credit_hours\<close> returns 2 when the name is exactly one of the two
  double-credit names, 0.5 when it starts with \<^verbatim>\<open>"I Service: "\<close> or \<^verbatim>\<open>"IS: "\<close>, and 1 for
  every other name.
\<close>

theorem calculate_credit_hours_cases:
  "calculate_credit_hours course_name =
     (if course_name = ''English 10/American History'' \<or> course_name = ''English 9/World History''
      then 2
      else if prefix ''I Service: '' course_name \<or> prefix ''IS: '' course_name then 1 / 2
      else 1)"
  by (simp add: calculate_credit_hours_def double_effect_courses_def starts_with_any_def)

theorem calculate_credit_hours_cases_witness:
  "calculate_credit_hours ''English 10/American History'' = 2 \<and>
   calculate_credit_hours ''English 9/World History'' = 2 \<and>
   calculate_credit_hours ''IS: Biology'' = 1 / 2 \<and>
   calculate_credit_hours ''I Service: Library'' = 1 / 2 \<and>
   calculate_credit_hours ''Algebra I'' = 1 \<and>
   calculate_credit_hours ''English 9/World History II'' = 1"
  using calculate_credit_hours_cases [of "''English 10/American History''"]
    calculate_credit_hours_cases [of "''English 9/World History''"]
    calculate_credit_hours_cases [of "''IS: Biology''"]
    calculate_credit_hours_cases [of "''I Service: Library''"]
    calculate_credit_hours_cases [of "''Algebra I''"]
    calculate_credit_hours_cases [of "''English 9/World History II''"]
  by simp

lemma calculate_credit_hours_positive: "0 < calculate_credit_hours course_name"
  by (simp add: calculate_credit_hours_def)

text \<open>The literal \<^verbatim>\<open>1.8\<close> lies between the grade points 1.5 and 2.\<close>

lemma less_than_literal:
  "less_than (Number x) (round64 (18 / 10)) = (x < 8106479329266893 / 4503599627370496)"
  by (simp add: round64_examples)

text \<open>
  \<^verbatim>\<open>course_boost\<close> by cases: 0 when \<^verbatim>\<open>gradeToGPA(grade) < 1.8\<close> holds, which includes -1;
  otherwise 0.5 when the course name starts with \<^verbatim>\<open>"AP "\<close> or \<^verbatim>\<open>"AT "\<close>, and 0 for other
  names. The three examples of the spec are the last three conjuncts.
\<close>

lemma course_boost_by_cases:
  "(less_than (gradeToGPA g) (round64 (18 / 10)) \<longrightarrow> course_boost course_name g = 0) \<and>
   (gradeToGPA g = Number (- 1) \<longrightarrow> course_boost course_name g = 0) \<and>
   (\<not> less_than (gradeToGPA g) (round64 (18 / 10)) \<longrightarrow>
      course_boost course_name g =
        (if prefix ''AP '' course_name \<or> prefix ''AT '' course_name then 1 / 2 else 0)) \<and>
   course_boost ''AP Calculus'' ''A'' = 1 / 2 \<and>
   course_boost ''AP Calculus'' ''D'' = 0 \<and>
   course_boost ''Calculus'' ''A'' = 0"
  by (simp add: course_boost_def starts_with_any_def gradeToGPA_canonical round64_examples)

text \<open>
  Claim C6 says that \<^verbatim>\<open>course_boost\<close> returns 0 for every unrecognized grade, since
  \<^verbatim>\<open>gradeToGPA\<close> is -1 there. The string \<^verbatim>\<open>"constructor"\<close> is not a letter grade, but
  \<^verbatim>\<open>gradeToGPA\<close> returns the inherited member for it; the comparison of that function with
  1.8 is false, and a course whose name starts with \<^verbatim>\<open>"AP "\<close> gets the boost 0.5.
\<close>

theorem course_boost_constructor:
  "course_boost ''AP Art'' ''constructor'' = 1 / 2 \<and>
   gradeToGPA ''constructor'' \<noteq> Number (- 1) \<and>
   ''constructor'' \<notin> set avaliableGrades"
  by (simp add: course_boost_def grade_table_defs starts_with_any_def avaliableGrades_def)

section \<open>The grade point average: \<^verbatim>\<open>calculate_gpa\<close>\<close>

lemma course_boost_examples:
  "course_boost ''Algebra I'' ''A'' = 0" "course_boost ''AP Calc'' ''A'' = 1 / 2"
  by (simp_all add: course_boost_def starts_with_any_def gradeToGPA_canonical round64_examples)

lemma calculate_gpa_examples:
  "calculate_gpa [] = ''0.00''"
  "calculate_gpa [\<lparr>name = ''Algebra I'', link = l, grade = ''A'', finalPercent = p,
                   course_assignments = a\<rparr>] = ''4.00''"
  "calculate_gpa [\<lparr>name = ''AP Calc'', link = l, grade = ''A'', finalPercent = p,
                   course_assignments = a\<rparr>] = ''4.50''"
  by (simp_all add: calculate_gpa_def gradeToGPA_canonical calculate_credit_hours_def
      double_effect_courses_def starts_with_any_def course_boost_examples round64_exact
      toFixed2_examples)

text \<open>Courses whose grade maps to -1 leave both accumulators as they are.\<close>

lemma gpa_loop_unrecognized:
  "\<forall>c\<in>set cs. gradeToGPA (grade c) = Number (- 1) \<Longrightarrow> gpa_loop cs acc = acc"
  by (induction cs arbitrary: acc) (auto simp: split_paired_all)

lemma calculate_gpa_unrecognized:
  "\<forall>c\<in>set cs. gradeToGPA (grade c) = Number (- 1) \<Longrightarrow> calculate_gpa cs = ''0.00''"
  by (simp add: calculate_gpa_def gpa_loop_unrecognized)

text \<open>
  A quotient that binary64 does not hold: 30.25 / 10 is a value just below 3.025, which
  \<^verbatim>\<open>toFixed(2)\<close> prints as \<^verbatim>\<open>"3.02"\<close>; the exact 3.025 would print as \<^verbatim>\<open>"3.03"\<close>.
\<close>

lemma js_divide_inexact:
  "js_divide (Fin (121 / 4)) (Fin 10) = Fin (6811694436397875 / 2251799813685248)"
  "toFixed2 (js_divide (Fin (121 / 4)) (Fin 10)) = ''3.02''"
  "toFixed2 (Fin (6811694436397875 / 2251799813685248)) = ''3.02''"
  "toFixed2 (Fin (121 / 40)) = ''3.03''"
  by (simp_all add: round64_examples toFixed2_def round_hundredths_def fixed_digits_def
      floor_rat_numeral dec_digits.simps digit_char_def)

lemma grade_value:
  assumes "gradeToGPA g = Number x" and "x \<noteq> - 1"
  shows "2 * x \<in> \<int>" and "0 \<le> x" and "x \<le> 9 / 2"
proof -
  have "map_of grade_gpa g = Some x"
    using assms by (auto simp: gradeToGPA_def has_property_def get_property_def
        split: if_splits option.splits)
  then have "(g, x) \<in> set grade_gpa" by (rule map_of_SomeD)
  then have "x \<in> {9 / 2, 4, 7 / 2, 3, 5 / 2, 2, 3 / 2, 1, 0}"
    by (auto simp: grade_gpa_def)
  then have "x \<in> {9 / 2, 4, 7 / 2, 3, 5 / 2, 2, 3 / 2, 1, 0} \<and> 2 * x \<in> {9, 8, 7, 6, 5, 4, 3, 2, 0}"
    by auto
  then show "2 * x \<in> \<int>" and "0 \<le> x" and "x \<le> 9 / 2" by auto
qed

lemma credit_hours_values:
  "2 * calculate_credit_hours n \<in> \<int>" "0 < calculate_credit_hours n"
  "calculate_credit_hours n \<le> 2"
  by (simp_all add: calculate_credit_hours_def)

lemma course_boost_values:
  "2 * course_boost n g \<in> \<int>" "0 \<le> course_boost n g" "course_boost n g \<le> 1 / 2"
  by (simp_all add: course_boost_def)

lemma weighted_exact:
  assumes "gradeToGPA g = Number x" and "x \<noteq> - 1"
  shows "weighted (calculate_credit_hours n) (Number x) (course_boost n g) =
           Fin (calculate_credit_hours n * (x + course_boost n g))"
    and "4 * (calculate_credit_hours n * (x + course_boost n g)) \<in> \<int>"
    and "0 \<le> calculate_credit_hours n * (x + course_boost n g)"
    and "calculate_credit_hours n * (x + course_boost n g) \<le> 10"
proof -
  let ?m = "calculate_credit_hours n" and ?b = "course_boost n g"
  note gv = grade_value [OF assms] and mv = credit_hours_values [of n]
    and bv = course_boost_values [of n g]
  have "2 * (x + ?b) = 2 * x + 2 * ?b" by simp
  then have s2: "2 * (x + ?b) \<in> \<int>" using gv(1) bv(1) by (simp only: Ints_add)
  then have "4 * (x + ?b) \<in> \<int>"
    by (metis Ints_mult Ints_numeral mult.assoc mult_2 numeral_Bit0 Ints_add)
  moreover have "\<bar>x + ?b\<bar> < 2 ^ 51" using gv(2,3) bv(2,3) by simp
  ultimately have add: "round64 (x + ?b) = Fin (x + ?b)" by (rule round64_exact)
  have "4 * (?m * (x + ?b)) = (2 * ?m) * (2 * (x + ?b))" by simp
  then show p4: "4 * (?m * (x + ?b)) \<in> \<int>" using mv(1) s2 by (simp only: Ints_mult)
  show nn: "0 \<le> ?m * (x + ?b)" using mv(2) gv(2) bv(2) by simp
  have "?m * (x + ?b) \<le> 2 * 5"
    using mv gv bv by (intro mult_mono) simp_all
  then show le: "?m * (x + ?b) \<le> 10" by simp
  have "\<bar>?m * (x + ?b)\<bar> < 2 ^ 51" using nn le by simp
  with p4 have "round64 (?m * (x + ?b)) = Fin (?m * (x + ?b))" by (rule round64_exact)
  then show "weighted ?m (Number x) ?b = Fin (?m * (x + ?b))"
    by (simp add: add)
qed

text \<open>
  With no grade that names an inherited member and fewer than \<open>2^47\<close> courses, the
  two accumulators of the loop hold the denominator and the numerator of the weighted
  average exactly: they are multiples of 1/4 that binary64 holds.
\<close>

lemma gpa_loop_numeric:
  assumes "\<forall>c\<in>set cs. grade c \<notin> set object_prototype_keys"
    and "4 * d \<in> \<int>" and "0 \<le> d" and "d + 2 * of_nat (length cs) < 2 ^ 51"
    and "4 * n \<in> \<int>" and "0 \<le> n" and "n + 10 * of_nat (length cs) < 2 ^ 51"
  shows "gpa_loop cs (Fin d, Fin n) = (Fin (d + denominator cs), Fin (n + numerator cs))"
  using assms
proof (induction cs arbitrary: d n)
  case Nil
  then show ?case by (simp add: denominator_def numerator_def)
next
  case (Cons c cs)
  obtain x where x: "gradeToGPA (grade c) = Number x"
    using gradeToGPA_Number [of "grade c"] Cons.prems(1) by auto
  show ?case
  proof (cases "x = - 1")
    case True
    have "gpa_loop cs (Fin d, Fin n) = (Fin (d + denominator cs), Fin (n + numerator cs))"
      using Cons.prems by (intro Cons.IH) simp_all
    then show ?thesis
      using x True by (simp add: denominator_def numerator_def has_valid_gpa_def)
  next
    case False
    let ?m = "calculate_credit_hours (name c)"
    let ?t = "?m * (x + course_boost (name c) (grade c))"
    note mv = credit_hours_values [of "name c"]
    note wv = weighted_exact [OF x False, of "name c"]
    have "4 * (d + ?m) = 4 * d + 2 * (2 * ?m)" by simp
    moreover have "2 * (2 * ?m) \<in> \<int>" by (rule Ints_mult [OF Ints_numeral mv(1)])
    ultimately have d4: "4 * (d + ?m) \<in> \<int>" using Cons.prems(2) by (simp only: Ints_add)
    have dn: "0 \<le> d + ?m" using Cons.prems(3) mv(2) by simp
    have db: "d + ?m + 2 * of_nat (length cs) < 2 ^ 51" using Cons.prems(4) mv(3) by simp
    have "4 * (n + ?t) = 4 * n + 4 * ?t" by simp
    then have n4: "4 * (n + ?t) \<in> \<int>" using Cons.prems(5) wv(2) by (simp only: Ints_add)
    have nn: "0 \<le> n + ?t" using Cons.prems(6) wv(3) by simp
    have nb: "n + ?t + 10 * of_nat (length cs) < 2 ^ 51" using Cons.prems(7) wv(4) by simp
    have "\<bar>d + ?m\<bar> < 2 ^ 51" using dn db by simp
    with d4 have rd: "round64 (d + ?m) = Fin (d + ?m)" by (rule round64_exact)
    have "\<bar>n + ?t\<bar> < 2 ^ 51" using nn nb by simp
    with n4 have rn: "round64 (n + ?t) = Fin (n + ?t)" by (rule round64_exact)
    have ih: "gpa_loop cs (Fin (d + ?m), Fin (n + ?t)) =
                (Fin (d + ?m + denominator cs), Fin (n + ?t + numerator cs))"
      using Cons.prems(1) d4 dn db n4 nn nb by (intro Cons.IH) simp_all
    have step: "gpa_loop (c # cs) (Fin d, Fin n) = gpa_loop cs (Fin (d + ?m), Fin (n + ?t))"
      using x False by (simp add: Let_def wv(1) rd rn del: weighted.simps)
    show ?thesis
      unfolding step ih using x False
      by (simp add: denominator_def numerator_def has_valid_gpa_def grade_points_def)
  qed
qed

text \<open>
  So \<^verbatim>\<open>calculate_gpa\<close> prints the binary64 quotient of numerator and denominator with
  two decimals.
\<close>

lemma calculate_gpa_weighted_average:
  assumes "\<forall>c\<in>set cs. grade c \<notin> set object_prototype_keys" and "length cs < 2 ^ 47"
  shows "calculate_gpa cs =
           (if denominator cs = 0 then ''0.00''
            else toFixed2 (round64 (numerator cs / denominator cs)))"
proof -
  have "(of_nat (length cs) :: rat) < of_nat (2 ^ 47)" using assms(2) by (simp only: of_nat_less_iff)
  then have len: "(of_nat (length cs) :: rat) < 2 ^ 47" by simp
  have "gpa_loop cs (Fin 0, Fin 0) = (Fin (0 + denominator cs), Fin (0 + numerator cs))"
    using len by (intro gpa_loop_numeric [OF assms(1)]) simp_all
  then show ?thesis by (simp add: calculate_gpa_def)
qed

text \<open>
  Ten credit hours with a numerator of 30.25: the quotient is the value just below
  3.025, and the result is \<^verbatim>\<open>"3.02"\<close>.
\<close>

lemma calculate_gpa_inexact:
  "calculate_gpa
     (map (\<lambda>(n, g). \<lparr>name = n, link = [], grade = g, finalPercent = None,
                      course_assignments = []\<rparr>)
        [(''English 9/World History'', ''B''), (''English 9/World History'', ''B''),
         (''English 10/American History'', ''B''), (''English 10/American History'', ''B''),
         (''Art'', ''B+''), (''IS: Film'', ''C+''), (''IS: Chess'', ''B'')]) = ''3.02''"
  (is "calculate_gpa ?report = _")
proof -
  have g: "\<forall>c\<in>set ?report. grade c \<notin> set object_prototype_keys"
    by (simp add: object_prototype_keys_def)
  have l: "length ?report < 2 ^ 47" by simp
  have b: "course_boost n ''B'' = 0" "course_boost n ''B+'' = 0" "course_boost n ''C+'' = 0"
    if "\<not> prefix ''AP '' n" "\<not> prefix ''AT '' n" for n
    using that by (simp_all add: course_boost_def starts_with_any_def)
  have d: "denominator ?report = 10"
    by (simp add: denominator_def has_valid_gpa_def gradeToGPA_canonical
        calculate_credit_hours_def double_effect_courses_def starts_with_any_def)
  have n: "numerator ?report = 121 / 4"
    by (simp add: numerator_def has_valid_gpa_def grade_points_def
        gradeToGPA_canonical calculate_credit_hours_def double_effect_courses_def
        starts_with_any_def b)
  show ?thesis
    unfolding calculate_gpa_weighted_average [OF g l] d n
    by (simp add: round64_examples js_divide_inexact(3))
qed

text \<open>
  Claim C1 says that \<^verbatim>\<open>calculate_gpa\<close> returns the weighted average of the courses with
  a valid grade to two decimal places, and \<^verbatim>\<open>"0.00"\<close> for a list where every grade is
  unrecognized. A course with the grade \<^verbatim>\<open>"constructor"\<close>, which is not a letter grade, is
  counted, since \<^verbatim>\<open>gradeToGPA\<close> returns an inherited member for it and not -1; the sum
  becomes NaN and the result is the text \<^verbatim>\<open>"NaN"\<close>.
\<close>

theorem calculate_gpa_constructor:
  "calculate_gpa [\<lparr>name = ''Art'', link = [], grade = ''constructor'', finalPercent = None,
                   course_assignments = []\<rparr>] = ''NaN'' \<and>
   ''constructor'' \<notin> set avaliableGrades"
  by (simp add: calculate_gpa_def grade_table_defs calculate_credit_hours_def
      double_effect_courses_def starts_with_any_def round64_exact toFixed2_examples
      avaliableGrades_def)

section \<open>The final percent: \<^verbatim>\<open>extractFinalPercent\<close>\<close>

lemma occurrences_dropWhile_le: "occurrences pat (dropWhile P xs) \<le> occurrences pat xs"
  by (induction xs) auto

text \<open>There are at most as many matches as places where the marker stands.\<close>

lemma length_match_marker_le: "length (match_marker html) \<le> occurrences marker html"
proof (induction html rule: match_marker.induct)
  case 1
  then show ?case by simp
next
  case (2 c cs)
  show ?case
  proof (cases "prefix marker (c # cs)")
    case True
    have "length (match_marker (dropWhile (\<lambda>x. \<not> is_line_terminator x) cs))
            \<le> occurrences marker cs"
      using 2(1) [OF True] occurrences_dropWhile_le [of marker _ cs] by (rule order_trans)
    with True show ?thesis by simp
  next
    case False
    with 2(2) show ?thesis by simp
  qed
qed

lemma exec_brackets_undefined: "exec_brackets ''undefined'' = None"
  by (simp add: is_line_terminator_def)

lemma fewer_than_two_matches:
  "length (match_marker html) < 2 \<Longrightarrow> try_extract html = Inl TypeError"
  by (cases "match_marker html")
     (simp_all add: try_extract_def bracket_number_def exec_brackets_undefined)

lemma second_match:
  "match_marker html = m0 # m1 # rest \<Longrightarrow> try_extract html = bracket_number m1"
  by (simp add: try_extract_def)

lemmas extract_defs =
  extractFinalPercent_def try_extract_def bracket_number_def marker_def is_line_terminator_def
  upto_last_close_def slice_1_m1_def from_end_def token_value_def

text \<open>The function is total, and negative infinity is never its result.\<close>

lemma extractFinalPercent_not_NegInf: "extractFinalPercent html \<noteq> Some NegInf"
  by (auto simp: extractFinalPercent_def split: sum.splits)

lemma no_marker_absent: "extractFinalPercent ''<p>no script here</p>'' = None"
  by (simp add: extract_defs)

lemma one_marker_absent: "extractFinalPercent ''document.write([1;2;85;90]);'' = None"
  by (simp add: extract_defs)

lemma two_marker_lines:
  "match_marker (''document.write([1;85;90]);'' @ [CHR 0x0A] @ ''document.write([1;70;60]);'') =
     [''document.write([1;85;90]);'', ''document.write([1;70;60]);'']"
  by (simp add: marker_def is_line_terminator_def)

lemma bracket_number_examples:
  "bracket_number ''document.write([1;70;60]);'' = Inr (Fin 70)"
  "bracket_number ''document.write([1;2;85;90]);'' = Inr (Fin 90)"
  "bracket_number ''document.write([1;85;]);'' = Inr NaN"
  "bracket_number ''document.write([abc;12abc]);'' = Inr NegInf"
  by (simp_all add: extract_defs scan_defs round64_exact)

text \<open>
  Two markers on one line are one match, which runs to the end of the line: such a page
  has no second match, whatever list stands behind the second marker.
\<close>

lemma same_line_one_match:
  "match_marker ''document.write(0); document.write([1;85;90]);'' =
     [''document.write(0); document.write([1;85;90]);'']"
  "occurrences marker ''document.write(0); document.write([1;85;90]);'' = 2"
  "extractFinalPercent ''document.write(0); document.write([1;85;90]);'' = None"
  by (simp_all add: extract_defs)

text \<open>
  Claim C10: \<^verbatim>\<open>extractFinalPercent\<close> reads the bracketed list of the second match of the
  marker pattern (index 1 of the match list) and not of the first; on every page where
  the marker stands fewer than two times it returns absent, also when the one marker
  there carries a well-formed list, as the page of the third conjunct does.
\<close>

theorem extractFinalPercent_second_match:
  "(\<forall>m0 m1 rest. match_marker html = m0 # m1 # rest \<longrightarrow>
      extractFinalPercent html =
        (case bracket_number m1 of
           Inl e \<Rightarrow> None
         | Inr number \<Rightarrow> if number = NegInf then None else Some number)) \<and>
   (occurrences marker html < 2 \<longrightarrow> extractFinalPercent html = None) \<and>
   extractFinalPercent ''document.write([1;2;85;90]);'' = None \<and>
   extractFinalPercent
     (''document.write([1;85;90]);'' @ [CHR 0x0A] @ ''document.write([1;70;60]);'') = Some (Fin 70)"
proof -
  have a: "extractFinalPercent html =
        (case bracket_number m1 of
           Inl e \<Rightarrow> None
         | Inr number \<Rightarrow> if number = NegInf then None else Some number)"
    if "match_marker html = m0 # m1 # rest" for m0 m1 rest
    using second_match [OF that] by (simp add: extractFinalPercent_def)
  have b: "extractFinalPercent html = None" if "occurrences marker html < 2"
  proof -
    have "length (match_marker html) < 2"
      using length_match_marker_le [of html] that by simp
    then show ?thesis
      by (simp add: extractFinalPercent_def fewer_than_two_matches)
  qed
  have c: "extractFinalPercent
     (''document.write([1;85;90]);'' @ [CHR 0x0A] @ ''document.write([1;70;60]);'') = Some (Fin 70)"
    using second_match [OF two_marker_lines]
    by (simp add: extractFinalPercent_def bracket_number_examples)
  from a b c one_marker_absent show ?thesis by blast
qed

lemma witness_pages:
  "occurrences marker ''<script>document.write([9;8]);</script>'' = 1"
  "match_marker (''document.write(0);'' @ [CHR 0x0D] @ ''x = document.write([1;2;85;90]);'' @
       [CHR 0x0A] @ ''document.write([3]);'') =
     [''document.write(0);'', ''document.write([1;2;85;90]);'', ''document.write([3]);'']"
  by (simp_all add: marker_def is_line_terminator_def)

theorem extractFinalPercent_second_match_witness:
  "occurrences marker ''<script>document.write([9;8]);</script>'' < 2 \<and>
   extractFinalPercent ''<script>document.write([9;8]);</script>'' = None \<and>
   extractFinalPercent
     (''document.write(0);'' @ [CHR 0x0D] @ ''x = document.write([1;2;85;90]);'' @
       [CHR 0x0A] @ ''document.write([3]);'') = Some (Fin 90)"
proof -
  let ?one = "''<script>document.write([9;8]);</script>''"
  let ?three = "''document.write(0);'' @ [CHR 0x0D] @ ''x = document.write([1;2;85;90]);'' @
       [CHR 0x0A] @ ''document.write([3]);''"
  have few: "occurrences marker ?one < 2" by (subst witness_pages(1)) simp
  from conjunct1 [OF conjunct2 [OF extractFinalPercent_second_match [of ?one]]] few
  have "extractFinalPercent ?one = None" by (rule mp)
  moreover
  from conjunct1 [OF extractFinalPercent_second_match [of ?three], rule_format, OF witness_pages(2)]
  have "extractFinalPercent ?three = Some (Fin 90)"
    by (simp add: bracket_number_examples)
  ultimately show ?thesis using few by (intro conjI)
qed

text \<open>
  Claim C5 says that \<^verbatim>\<open>extractFinalPercent\<close> returns either the larger of the last two
  tokens, a token that is not numeric counting as negative infinity, or absent. On the
  page below the second match carries the list \<^verbatim>\<open>[1;85;]\<close>, whose last token is empty:
  \<^verbatim>\<open>isNaN("")\<close> is false, \<^verbatim>\<open>parseFloat("")\<close> is NaN, and the function returns NaN, which is
  neither 85 nor absent.
\<close>

theorem extractFinalPercent_empty_token:
  "extractFinalPercent
     (''document.write(0);'' @ [CHR 0x0A] @ ''document.write([1;85;]);'') = Some NaN"
proof -
  have "match_marker (''document.write(0);'' @ [CHR 0x0A] @ ''document.write([1;85;]);'') =
          [''document.write(0);'', ''document.write([1;85;]);'']"
    by (simp add: marker_def is_line_terminator_def)
  from second_match [OF this] show ?thesis
    by (simp add: extractFinalPercent_def bracket_number_examples)
qed

section \<open>The assignments table: \<^verbatim>\<open>assignments\<close>\<close>

lemma slice_header_legend: "slice_1_m1 (header # rows @ [legend]) = rows"
  by (simp add: slice_1_m1_def butlast_append)

text \<open>
  Claim C9: for a centered table with a header row, N data rows and a legend row,
  \<^verbatim>\<open>assignments\<close> returns N assignments in row order with the orders 0 to N-1; the name
  is the text of the row's third cell and the score the text of its last cell (the empty
  string when the cell is missing), and the assignment is flagged MISSING exactly when
  the row holds the missing icon.
\<close>

theorem assignments_rows:
  "\<exists>result. assignments (Some (header # rows @ [legend])) = Inr result \<and>
      length result = length rows \<and>
      (\<forall>i. i < length rows \<longrightarrow>
         order (result ! i) = i \<and>
         assignment_name (result ! i) =
           (if 2 < length (cells (rows ! i)) then cells (rows ! i) ! 2 else []) \<and>
         score (result ! i) = (if cells (rows ! i) = [] then [] else last (cells (rows ! i))) \<and>
         (MISSING \<in> set (statuses (result ! i))) = missing_icon (rows ! i))"
  by (simp add: assignments_def slice_header_legend nth_enumerate_eq row_assignment_def Let_def)

theorem assignments_rows_witness:
  "\<exists>result.
      assignments
        (Some (\<lparr>cells = [''Due'', ''Category'', ''Assignment'', ''Score''], missing_icon = False\<rparr> #
               [\<lparr>cells = [''1/2'', ''HW'', ''Essay'', ''9/10''], missing_icon = False\<rparr>,
                \<lparr>cells = [''1/3'', ''HW''], missing_icon = True\<rparr>,
                \<lparr>cells = [], missing_icon = False\<rparr>] @
               [\<lparr>cells = [''Legend''], missing_icon = False\<rparr>])) = Inr result \<and>
      length result = 3 \<and>
      map order result = [0, 1, 2] \<and>
      map assignment_name result = [''Essay'', [], []] \<and>
      map score result = [''9/10'', ''HW'', []] \<and>
      map statuses result = [[], [MISSING], []]"
proof -
  let ?h = "\<lparr>cells = [''Due'', ''Category'', ''Assignment'', ''Score''], missing_icon = False\<rparr>"
  let ?rows = "[\<lparr>cells = [''1/2'', ''HW'', ''Essay'', ''9/10''], missing_icon = False\<rparr>,
                \<lparr>cells = [''1/3'', ''HW''], missing_icon = True\<rparr>,
                \<lparr>cells = [], missing_icon = False\<rparr>]"
  let ?l = "\<lparr>cells = [''Legend''], missing_icon = False\<rparr>"
  from assignments_rows [of ?h ?rows ?l]
  obtain result where r: "assignments (Some (?h # ?rows @ [?l])) = Inr result"
    and len: "length result = 3" by auto
  have "result = map (\<lambda>(i, e). row_assignment i e) (enumerate 0 ?rows)"
    using r by (simp add: assignments_def slice_1_m1_def)
  then show ?thesis
    using r by (intro exI [of _ result]) (simp add: row_assignment_def)
qed

text \<open>Without a centered table the call throws; with fewer than three rows nothing is left.\<close>

lemma assignments_no_table: "assignments None = Inl TypeError"
  by (simp add: assignments_def)

lemma assignments_short: "length trs \<le> 2 \<Longrightarrow> assignments (Some trs) = Inr []"
proof -
  assume "length trs \<le> 2"
  then have "length (slice_1_m1 trs) = 0" by (simp add: slice_1_m1_def)
  then show ?thesis by (simp add: assignments_def)
qed

section \<open>Saved grades: \<^verbatim>\<open>getSavedGrades\<close> and \<^verbatim>\<open>saveGradesLocally\<close>\<close>

text \<open>
  Claim C4 says that \<^verbatim>\<open>getSavedGrades\<close> returns an empty sequence when no record is
  stored, and the stored courses otherwise, without raising an error. The source reads
  the record into \<^verbatim>\<open>course_list\<close> and then tests \<^verbatim>\<open>output\<close>, a name that nothing binds:
  for every storage and every username the call ends in a ReferenceError.
\<close>

theorem getSavedGrades_rejects:
  "getSavedGrades st username = Inl (ReferenceError ''output'')"
  by (simp add: getSavedGrades_def bound_objects_def)

text \<open>
  Claim C3 says that saving a list of courses and reading it back returns the same
  list. Reading back after a save ends in the same ReferenceError, so the saved list is
  never returned.
\<close>

theorem save_then_get_rejects:
  "getSavedGrades (saveGradesLocally st username courses) username =
     Inl (ReferenceError ''output'') \<and>
   getSavedGrades (saveGradesLocally st username courses) username \<noteq> Inr (Some courses)"
  by (simp add: getSavedGrades_def bound_objects_def)

text \<open>What the save itself stores: the user's record, and the name of the user.\<close>

lemma saveGradesLocally_stores:
  "saveGradesLocally st username courses (''USERDATA_'' @ username) = Some (UserData courses)"
  "saveGradesLocally st username courses ''most_recent_user'' = Some (UserName username)"
  by (simp_all add: saveGradesLocally_def)

end
